theory Spec2Isabelle
  imports Complex_Main "HOL-Library.Sublist"
begin

section \<open>The hiking tracker of \<open>src/App.tsx\<close>\<close>

text \<open>
  The component \<open>App\<close> keeps its session in React state cells and changes them from
  four kinds of callbacks: the geolocation watch (a fix or an error), the one-second
  timer, the control buttons, and the plumbing of battery, heart rate and swipe.  The
  model keeps the cells in one record and makes every callback a function from the
  record to the record.  The effect that recomputes the average speed is run after each
  callback, with its dependency list written out.

  Numbers.  A JavaScript \<open>number\<close> is a binary64 double.  The calories are an integer
  that the rounding of two operations decides, so their formula is modelled with the
  rounding of binary64 written out (\<open>fl\<close>, \<open>fdiv\<close>, \<open>fmul\<close> below).  So is the
  great-circle distance where its rounding decides between a number and \<open>NaN\<close>
  (\<open>haversine64\<close> below, with \<open>NaN\<close> as \<open>None\<close>).  In the session itself a number is
  modelled as a real and arithmetic is exact: there the distance is \<open>haversine\<close> on
  reals, and \<open>NaN\<close>, the infinities and the rounding of the distances, altitudes and
  speeds are left out.  The elapsed time starts at 0 and only ever grows by 1, so it is
  a natural number (the doubles count exactly up to \<open>2^53\<close>, which a timer of one tick a
  second does not reach); the calories are the result of \<open>Math.round\<close>, an integer; a
  time stamp is an integer number of milliseconds.
\<close>

subsection \<open>Data\<close>

record point =
  lat :: real
  lng :: real
  alt :: "real option"
  timestamp :: int
  speed :: "real option"

text \<open>What \<open>watchPosition\<close> hands to its success callback: \<open>position.coords\<close> and
  \<open>position.timestamp\<close>.  The fields \<open>speed\<close> and \<open>timestamp\<close> carry the prefix
  \<open>fix_\<close> because \<open>point\<close> has fields of the same names.\<close>

record position =
  latitude :: real
  longitude :: real
  altitude :: "real option"
  fix_speed :: "real option"
  accuracy :: real
  fix_timestamp :: int

datatype status = Idle | Active | Paused | Summary

datatype signal = Good | Fair | Poor | NoSignal

record session =
  status :: status
  points :: "point list"
  distance :: real
  elapsedTime :: nat
  elevationGain :: real
  maxAltitude :: real
  currentSpeed :: real
  avgSpeed :: real
  heartRate :: "int option"
  batteryLevel :: "int option"
  gpsSignal :: signal
  calories :: int
  screenIndex :: nat

text \<open>The initial values of the \<open>useState\<close> cells.\<close>

definition init :: session where
  "init = \<lparr> status = Idle, points = [], distance = 0, elapsedTime = 0,
     elevationGain = 0, maxAltitude = 0, currentSpeed = 0, avgSpeed = 0,
     heartRate = None, batteryLevel = None, gpsSignal = NoSignal, calories = 0,
     screenIndex = 0 \<rparr>"

subsection \<open>The great-circle distance\<close>

text \<open>\<open>Math.atan2(y, x)\<close> on reals: the angle of the point \<open>(x, y)\<close>, in \<open>(-\<pi>, \<pi>]\<close>, and 0
  at the origin.\<close>

definition atan2 :: "real \<Rightarrow> real \<Rightarrow> real" where
  "atan2 y x =
     (if 0 < x then arctan (y / x)
      else if x < 0 then (if 0 \<le> y then arctan (y / x) + pi else arctan (y / x) - pi)
      else if 0 < y then pi / 2
      else if y < 0 then - (pi / 2)
      else 0)"

text \<open>The term \<open>a\<close> of \<open>haversine\<close>, named so that its bounds can be stated.  On reals
  \<open>a\<close> lies between 0 and 1.  In binary64 the sum can round to just above 1 for two fixes
  that are antipodal, such as (8, 0) and (-8, 180), where it is 1.0000000000000002:
  then \<open>Math.sqrt(1 - a)\<close> is \<open>NaN\<close>, and so are the distance returned and the cumulative
  distance from then on.  The model on reals has no such case; it gives the distance
  the formula stands for.  The case is in \<open>haversine64\<close> below.\<close>

definition haversine_a :: "real \<Rightarrow> real \<Rightarrow> real \<Rightarrow> real \<Rightarrow> real" where
  "haversine_a lat1 lon1 lat2 lon2 =
     (let dLat = (lat2 - lat1) * pi / 180;
          dLon = (lon2 - lon1) * pi / 180
      in sin (dLat / 2) * sin (dLat / 2) +
         cos (lat1 * pi / 180) * cos (lat2 * pi / 180) *
         sin (dLon / 2) * sin (dLon / 2))"

definition haversine :: "real \<Rightarrow> real \<Rightarrow> real \<Rightarrow> real \<Rightarrow> real" where
  "haversine lat1 lon1 lat2 lon2 =
     (let R = 6371;
          a = haversine_a lat1 lon1 lat2 lon2;
          c = 2 * atan2 (sqrt a) (sqrt (1 - a))
      in R * c)"

subsection \<open>Ingestion of a fix\<close>

text \<open>The truth value JavaScript gives to \<open>p.alt\<close>, of type \<open>number | null\<close>: \<open>null\<close> and
  0 are false.\<close>

fun truthy :: "real option \<Rightarrow> bool" where
  "truthy None = False"
| "truthy (Some v) = (v \<noteq> 0)"

definition classify :: "real \<Rightarrow> signal" where
  "classify acc = (if acc < 20 then Good else if acc < 50 then Fair else Poor)"

definition newPoint :: "position \<Rightarrow> point" where
  "newPoint pos = \<lparr> lat = latitude pos, lng = longitude pos, alt = altitude pos,
     timestamp = fix_timestamp pos, speed = fix_speed pos \<rparr>"

text \<open>The updater given to \<open>setPoints\<close>, with the updates it queues for the distance,
  the elevation gain and the maximum altitude.  \<open>maxAltitude\<close> is read from the closure
  of the effect, which is set up again whenever \<open>maxAltitude\<close> changes: the value read is
  the one of the state.  Every updater is applied once.\<close>

definition addPoint :: "point \<Rightarrow> session \<Rightarrow> session" where
  "addPoint np s =
     (let s1 = (if points s \<noteq> [] then
                  (let lastPoint = last (points s);
                       dist = haversine (lat lastPoint) (lng lastPoint) (lat np) (lng np);
                       sd = s\<lparr> distance := distance s + dist \<rparr>
                   in if truthy (alt np) \<and> truthy (alt lastPoint) \<and>
                         the (alt np) > the (alt lastPoint)
                      then sd\<lparr> elevationGain :=
                                 elevationGain sd + (the (alt np) - the (alt lastPoint)) \<rparr>
                      else sd)
                else s);
          s2 = (if truthy (alt np) \<and> the (alt np) > maxAltitude s
                then s1\<lparr> maxAltitude := the (alt np) \<rparr> else s1)
      in s2\<lparr> points := points s @ [np] \<rparr>)"

text \<open>The success callback of \<open>watchPosition\<close>.\<close>

definition onPosition :: "position \<Rightarrow> session \<Rightarrow> session" where
  "onPosition pos s =
     (let s1 = s\<lparr> gpsSignal := classify (accuracy pos) \<rparr>;
          s2 = addPoint (newPoint pos) s1
      in case fix_speed pos of
           None \<Rightarrow> s2
         | Some v \<Rightarrow> s2\<lparr> currentSpeed := v * 3.6 \<rparr>)"

text \<open>The error callback of \<open>watchPosition\<close>.\<close>

definition onError :: "session \<Rightarrow> session" where
  "onError s = s\<lparr> gpsSignal := NoSignal \<rparr>"

subsection \<open>Binary64 arithmetic\<close>

text \<open>A double of magnitude at least \<open>2^e\<close> and below \<open>2^(e+1)\<close> is a multiple of
  \<open>2^(e-52)\<close>; below \<open>2^(-1022)\<close> it is a multiple of \<open>2^(-1074)\<close>.  \<open>fl\<close> rounds a real to
  the nearest double, a tie to the one with the even significand, as every arithmetic
  operation of JavaScript rounds its exact result.  The overflow to an infinity, from
  \<open>2^1024\<close> on, is left out.\<close>

definition binade :: "real \<Rightarrow> int" where
  "binade x = \<lfloor>log 2 \<bar>x\<bar>\<rfloor>"

definition ulp :: "real \<Rightarrow> real" where
  "ulp x = 2 powr of_int (max (binade x) (- 1022) - 52)"

definition roundEven :: "real \<Rightarrow> int" where
  "roundEven q =
     (let f = \<lfloor>q\<rfloor>
      in if q - of_int f < 1 / 2 then f
         else if q - of_int f > 1 / 2 then f + 1
         else if even f then f else f + 1)"

definition fl :: "real \<Rightarrow> real" where
  "fl x = (if x = 0 then 0 else of_int (roundEven (x / ulp x)) * ulp x)"

text \<open>The operators \<open>*\<close>, \<open>/\<close>, \<open>+\<close> and \<open>-\<close> on doubles, the second for a divisor other
  than 0 (the divisors of the formulas below are 2, 180 and 3600).\<close>

definition fmul :: "real \<Rightarrow> real \<Rightarrow> real" where
  "fmul x y = fl (x * y)"

definition fdiv :: "real \<Rightarrow> real \<Rightarrow> real" where
  "fdiv x y = fl (x / y)"

definition fadd :: "real \<Rightarrow> real \<Rightarrow> real" where
  "fadd x y = fl (x + y)"

definition fsub :: "real \<Rightarrow> real \<Rightarrow> real" where
  "fsub x y = fl (x - y)"

subsection \<open>The great-circle distance in binary64\<close>

text \<open>\<open>Math.PI\<close> is the double nearest to \<open>\<pi>\<close>, \<open>884279719003555 / 2^48\<close>.  The language
  leaves the last bit of \<open>Math.sin\<close>, \<open>Math.cos\<close> and \<open>Math.atan2\<close> to the implementation;
  they are taken here as correctly rounded, the double nearest to the exact value.
  \<open>Math.sqrt\<close> is correctly rounded by the language, and is \<open>NaN\<close> for a negative number:
  a double that may be \<open>NaN\<close> is a \<open>real option\<close>, with \<open>None\<close> for \<open>NaN\<close>.\<close>

definition Math_PI :: real where
  "Math_PI = 884279719003555 / 281474976710656"

definition Math_sin :: "real \<Rightarrow> real" where
  "Math_sin x = fl (sin x)"

definition Math_cos :: "real \<Rightarrow> real" where
  "Math_cos x = fl (cos x)"

definition Math_atan2 :: "real \<Rightarrow> real \<Rightarrow> real" where
  "Math_atan2 y x = fl (atan2 y x)"

definition Math_sqrt :: "real \<Rightarrow> real option" where
  "Math_sqrt x = (if x < 0 then None else Some (fl (sqrt x)))"

text \<open>The function \<open>haversine\<close> as the doubles compute it, every operation in the order
  of the source and rounded.  The term \<open>a\<close> is a number, as the coordinates of a fix are;
  the two square roots may be \<open>NaN\<close>, and an operation on \<open>NaN\<close> gives \<open>NaN\<close>.\<close>

definition haversine_a64 :: "real \<Rightarrow> real \<Rightarrow> real \<Rightarrow> real \<Rightarrow> real" where
  "haversine_a64 lat1 lon1 lat2 lon2 =
     (let dLat = fdiv (fmul (fsub lat2 lat1) Math_PI) 180;
          dLon = fdiv (fmul (fsub lon2 lon1) Math_PI) 180
      in fadd (fmul (Math_sin (fdiv dLat 2)) (Math_sin (fdiv dLat 2)))
           (fmul (fmul (fmul (Math_cos (fdiv (fmul lat1 Math_PI) 180))
                             (Math_cos (fdiv (fmul lat2 Math_PI) 180)))
                       (Math_sin (fdiv dLon 2)))
                 (Math_sin (fdiv dLon 2))))"

definition haversine64 :: "real \<Rightarrow> real \<Rightarrow> real \<Rightarrow> real \<Rightarrow> real option" where
  "haversine64 lat1 lon1 lat2 lon2 =
     (let R = 6371;
          a = haversine_a64 lat1 lon1 lat2 lon2
      in case (Math_sqrt a, Math_sqrt (fsub 1 a)) of
           (Some y, Some x) \<Rightarrow> Some (fmul R (fmul 2 (Math_atan2 y x)))
         | _ \<Rightarrow> None)"

text \<open>\<open>d + dist\<close> of the updater \<open>setDistance(d => d + dist)\<close>, and the distance cell along
  the fixes of an active session: the first fix has no point before it, every later
  one adds the distance from the fix before it.\<close>

definition plus64 :: "real option \<Rightarrow> real option \<Rightarrow> real option" where
  "plus64 d dst = (case (d, dst) of (Some x, Some y) \<Rightarrow> Some (fadd x y) | _ \<Rightarrow> None)"

fun distance64 :: "real option \<Rightarrow> position option \<Rightarrow> position list \<Rightarrow> real option" where
  "distance64 d lastPoint [] = d"
| "distance64 d None (pos # rest) = distance64 d (Some pos) rest"
| "distance64 d (Some lp) (pos # rest) =
     distance64
       (plus64 d (haversine64 (latitude lp) (longitude lp) (latitude pos) (longitude pos)))
       (Some pos) rest"

subsection \<open>The timer\<close>

text \<open>\<open>Math.round\<close> rounds to the nearest integer, a tie towards \<open>+\<infinity>\<close>; it is exact.\<close>

definition Math_round :: "real \<Rightarrow> int" where
  "Math_round x = \<lfloor>x + 1 / 2\<rfloor>"

text \<open>\<open>Math.round(6.0 * 70 * (newTime / 3600))\<close>: the product \<open>6.0 * 70\<close>, the quotient and
  the second product are each rounded to a double.\<close>

definition caloriesAt :: "nat \<Rightarrow> int" where
  "caloriesAt newTime = Math_round (fmul (fmul 6.0 70) (fdiv (real newTime) 3600))"

definition tick :: "session \<Rightarrow> session" where
  "tick s =
     (let newTime = elapsedTime s + 1
      in s\<lparr> calories := caloriesAt newTime, elapsedTime := newTime \<rparr>)"

subsection \<open>The controls\<close>

text \<open>The buttons that change the state.  Each is rendered in some states only;
  \<open>rendered\<close> is the condition of the JSX.  A button that is not on the screen cannot be
  clicked.\<close>

datatype control = StartButton | PauseButton | StopButton | ResetButton

fun rendered :: "control \<Rightarrow> status \<Rightarrow> bool" where
  "rendered StartButton st = (st \<noteq> Summary \<and> st = Idle)"
| "rendered PauseButton st = (st \<noteq> Summary \<and> st = Active)"
| "rendered StopButton st = (st \<noteq> Summary \<and> (st = Active \<or> st = Paused))"
| "rendered ResetButton st = (st = Summary)"

text \<open>\<open>handleStart\<close> also starts the connection to a heart-rate source when there is no
  reading yet; the readings arrive later, as events of their own.\<close>

definition handleStart :: "session \<Rightarrow> session" where
  "handleStart s = s\<lparr> status := Active \<rparr>"

definition reset :: "session \<Rightarrow> session" where
  "reset s = s\<lparr> status := Idle, points := [], distance := 0, elapsedTime := 0,
     elevationGain := 0, maxAltitude := 0, calories := 0, screenIndex := 0 \<rparr>"

fun onClick :: "control \<Rightarrow> session \<Rightarrow> session" where
  "onClick StartButton s = handleStart s"
| "onClick PauseButton s = s\<lparr> status := Paused \<rparr>"
| "onClick StopButton s = s\<lparr> status := Summary \<rparr>"
| "onClick ResetButton s = reset s"

text \<open>The end of a drag of the two screens.\<close>

definition onDragEnd :: "real \<Rightarrow> session \<Rightarrow> session" where
  "onDragEnd x s =
     (let s1 = (if x < - 50 then s\<lparr> screenIndex := 1 \<rparr> else s)
      in if x > 50 then s1\<lparr> screenIndex := 0 \<rparr> else s1)"

subsection \<open>Events and the run of a session\<close>

datatype event =
    Fix position
  | FixError
  | Tick
  | Click control
  | DragEnd real
  | HeartRate int
  | Battery int

text \<open>The watch and the timer exist while the status is \<open>active\<close>: their effects
  subscribe then and unsubscribe in their clean-up.  The two screens can be dragged
  unless the summary is shown.  The heart-rate source (a device, or the simulated walk)
  and the battery deliver a reading at any time; the model lets a reading be any
  number.\<close>

fun enabled :: "event \<Rightarrow> session \<Rightarrow> bool" where
  "enabled (Fix pos) s = (status s = Active)"
| "enabled FixError s = (status s = Active)"
| "enabled Tick s = (status s = Active)"
| "enabled (Click c) s = rendered c (status s)"
| "enabled (DragEnd x) s = (status s \<noteq> Summary)"
| "enabled (HeartRate hr) s = True"
| "enabled (Battery b) s = True"

fun handler :: "event \<Rightarrow> session \<Rightarrow> session" where
  "handler (Fix pos) s = onPosition pos s"
| "handler FixError s = onError s"
| "handler Tick s = tick s"
| "handler (Click c) s = onClick c s"
| "handler (DragEnd x) s = onDragEnd x s"
| "handler (HeartRate hr) s = s\<lparr> heartRate := Some hr \<rparr>"
| "handler (Battery b) s = s\<lparr> batteryLevel := Some b \<rparr>"

text \<open>The effect with the dependencies \<open>[distance, elapsedTime]\<close>: it runs after a
  render in which one of the two has changed.\<close>

definition avgSpeedEffect :: "session \<Rightarrow> session \<Rightarrow> session" where
  "avgSpeedEffect old s =
     (if distance s \<noteq> distance old \<or> elapsedTime s \<noteq> elapsedTime old
      then (if elapsedTime s > 0
            then s\<lparr> avgSpeed := distance s / (real (elapsedTime s) / 3600) \<rparr>
            else s)
      else s)"

text \<open>One event.  An event that cannot occur in the state, because its source is not
  subscribed or its button is not on the screen, leaves the session as it is.  Otherwise
  its handler runs and, after the render, the effect.\<close>

definition step :: "event \<Rightarrow> session \<Rightarrow> session" where
  "step e s = (if enabled e s then avgSpeedEffect s (handler e s) else s)"

definition run :: "event list \<Rightarrow> session \<Rightarrow> session" where
  "run evs s = foldl (\<lambda>s e. step e s) s evs"

subsection \<open>The track exporter\<close>

text \<open>\<open>generateGPX\<close> builds the document by appending to the string \<open>gpx\<close>.  Two
  built-ins of the platform are parameters: \<open>numToString\<close>, the text a template literal
  gives for a number, and \<open>toISOString\<close>, which stands for
  \<open>t \<mapsto> new Date(t).toISOString()\<close> on the time stamps of the geolocation source,
  which are time values the built-in accepts; the \<open>RangeError\<close> it throws for other
  numbers is outside the model.  \<open>emitPoint\<close> is the callback of \<open>forEach\<close>, from the
  text so far to the text with one more point.\<close>

definition emitPoint ::
  "(real \<Rightarrow> string) \<Rightarrow> (int \<Rightarrow> string) \<Rightarrow> string \<Rightarrow> point \<Rightarrow> string" where
  \<open>emitPoint numToString toISOString gpx p =
     (let gpx1 = gpx @ ''      <trkpt lat="'' @ numToString (lat p) @ ''" lon="'' @
                   numToString (lng p) @ ''">\<newline>'';
          gpx2 = (if truthy (alt p)
                  then gpx1 @ ''        <ele>'' @ numToString (the (alt p)) @ ''</ele>\<newline>''
                  else gpx1);
          gpx3 = gpx2 @ ''        <time>'' @ toISOString (timestamp p) @ ''</time>\<newline>''
      in gpx3 @ ''      </trkpt>\<newline>'')\<close>

definition generateGPX ::
  "(real \<Rightarrow> string) \<Rightarrow> (int \<Rightarrow> string) \<Rightarrow> point list \<Rightarrow> string" where
  \<open>generateGPX numToString toISOString ps =
     (let gpx0 = ''<?xml version="1.0" encoding="UTF-8"?>\<newline>'';
          gpx1 = gpx0 @ ''<gpx version="1.1" creator="Web Wear OS Hiking App">\<newline>'';
          gpx2 = gpx1 @ ''  <trk>\<newline>'';
          gpx3 = gpx2 @ ''    <name>Hiking Session</name>\<newline>'';
          gpx4 = gpx3 @ ''    <trkseg>\<newline>'';
          gpx5 = foldl (emitPoint numToString toISOString) gpx4 ps;
          gpx6 = gpx5 @ ''    </trkseg>\<newline>'';
          gpx7 = gpx6 @ ''  </trk>\<newline>''
      in gpx7 @ ''</gpx>'')\<close>

section \<open>Notions of the specification\<close>

subsection \<open>The great-circle distance of two places\<close>

text \<open>By the spherical law of cosines: the radius times the angle at the centre of the
  sphere, whose cosine is \<open>centralCos\<close>.\<close>

definition centralCos :: "real \<Rightarrow> real \<Rightarrow> real \<Rightarrow> real \<Rightarrow> real" where
  "centralCos lat1 lon1 lat2 lon2 =
     sin (lat1 * pi / 180) * sin (lat2 * pi / 180) +
     cos (lat1 * pi / 180) * cos (lat2 * pi / 180) * cos ((lon2 - lon1) * pi / 180)"

definition greatCircle :: "real \<Rightarrow> real \<Rightarrow> real \<Rightarrow> real \<Rightarrow> real" where
  "greatCircle lat1 lon1 lat2 lon2 = 6371 * arccos (centralCos lat1 lon1 lat2 lon2)"

subsection \<open>The length of a track\<close>

text \<open>The sum of the distances between each point and the next, in a left fold as
  the tracker adds them.\<close>

fun legs :: "point list \<Rightarrow> real list" where
  "legs [] = []"
| "legs [p] = []"
| "legs (p # q # ps) = haversine (lat p) (lng p) (lat q) (lng q) # legs (q # ps)"

definition trackLength :: "point list \<Rightarrow> real" where
  "trackLength ps = foldl (+) 0 (legs ps)"


subsection \<open>The table of transitions\<close>

text \<open>The transitions between the states of a session, by the control that asks for
  them; \<open>None\<close> where the control does nothing.\<close>

fun transition :: "control \<Rightarrow> status \<Rightarrow> status option" where
  "transition StartButton Idle = Some Active"
| "transition PauseButton Active = Some Paused"
| "transition StopButton Active = Some Summary"
| "transition StopButton Paused = Some Summary"
| "transition ResetButton Summary = Some Idle"
| "transition _ _ = None"

subsection \<open>Invariants of a session\<close>

definition distance_inv :: "session \<Rightarrow> bool" where
  "distance_inv s = (distance s = trackLength (points s))"

definition calories_inv :: "session \<Rightarrow> bool" where
  "calories_inv s = (calories s = caloriesAt (elapsedTime s))"

definition avgSpeed_inv :: "session \<Rightarrow> bool" where
  "avgSpeed_inv s =
     (if elapsedTime s > 0 then avgSpeed s = distance s / (real (elapsedTime s) / 3600)
      else True)"

subsection \<open>Reading an exported document\<close>

text \<open>The number of places of a text where a pattern starts.\<close>

fun occurrences :: "string \<Rightarrow> string \<Rightarrow> nat" where
  "occurrences pat [] = (if pat = [] then 1 else 0)"
| "occurrences pat (c # cs) = (if prefix pat (c # cs) then 1 else 0) + occurrences pat cs"

text \<open>The tags of a text, each without its angle brackets, in order.  A tag that is
  still open at the end of the text is kept with its opening bracket, which no closed tag
  starts with.\<close>

fun tagsFrom :: "string option \<Rightarrow> string \<Rightarrow> string list" where
  "tagsFrom None [] = []"
| "tagsFrom (Some t) [] = [CHR ''<'' # t]"
| "tagsFrom None (c # cs) = (if c = CHR ''<'' then tagsFrom (Some []) cs else tagsFrom None cs)"
| "tagsFrom (Some t) (c # cs) =
     (if c = CHR ''>'' then t # tagsFrom None cs else tagsFrom (Some (t @ [c])) cs)"

text \<open>Tags are well nested when every closing tag closes the element opened last and
  nothing stays open.  A declaration \<open><?...?>\<close> opens nothing; the name of an element
  ends at the first blank.\<close>

fun nested :: "string list \<Rightarrow> string list \<Rightarrow> bool" where
  "nested stack [] = (stack = [])"
| "nested stack (t # ts) =
     (case t of
        [] \<Rightarrow> False
      | c # name \<Rightarrow>
          if c = CHR ''?'' then nested stack ts
          else if c = CHR ''/'' then
            (case stack of [] \<Rightarrow> False | opened # rest \<Rightarrow> opened = name \<and> nested rest ts)
          else nested (takeWhile (\<lambda>d. d \<noteq> CHR '' '') t # stack) ts)"

definition wellNested :: "string \<Rightarrow> bool" where
  "wellNested doc = nested [] (tagsFrom None doc)"

text \<open>The text before the first point and the text after the last.\<close>

definition gpxHead :: string where
  \<open>gpxHead = ''<?xml version="1.0" encoding="UTF-8"?>\<newline>'' @
     ''<gpx version="1.1" creator="Web Wear OS Hiking App">\<newline>'' @
     ''  <trk>\<newline>'' @
     ''    <name>Hiking Session</name>\<newline>'' @
     ''    <trkseg>\<newline>''\<close>

definition gpxTail :: string where
  \<open>gpxTail = ''    </trkseg>\<newline>'' @ ''  </trk>\<newline>'' @ ''</gpx>''\<close>

subsection \<open>Forgetting an altitude of zero\<close>

text \<open>The same point, fix, event or session with every altitude 0 replaced by an
  unknown altitude.\<close>

definition forget0 :: "real option \<Rightarrow> real option" where
  "forget0 a = (if a = Some 0 then None else a)"

definition forgetPoint :: "point \<Rightarrow> point" where
  "forgetPoint p = p\<lparr> alt := forget0 (alt p) \<rparr>"

definition forgetSession :: "session \<Rightarrow> session" where
  "forgetSession s = s\<lparr> points := map forgetPoint (points s) \<rparr>"

fun forgetEvent :: "event \<Rightarrow> event" where
  "forgetEvent (Fix pos) = Fix (pos\<lparr> altitude := forget0 (altitude pos) \<rparr>)"
| "forgetEvent e = e"

subsection \<open>Example data\<close>

text \<open>Two fixes half a turn apart on the equator, the first at sea level; the two fixes
  of the scenario of the specification, 10 m apart in altitude.\<close>

definition fixA :: position where
  "fixA = \<lparr> latitude = 0, longitude = 0, altitude = Some 0, fix_speed = Some 1,
     accuracy = 15, fix_timestamp = 0 \<rparr>"

definition fixB :: position where
  "fixB = \<lparr> latitude = 0, longitude = 180, altitude = Some 10, fix_speed = None,
     accuracy = 35, fix_timestamp = 1000 \<rparr>"

definition fixC :: position where
  "fixC = \<lparr> latitude = 0, longitude = 0, altitude = Some 100, fix_speed = None,
     accuracy = 80, fix_timestamp = 0 \<rparr>"

definition fixD :: position where
  "fixD = \<lparr> latitude = 0, longitude = 0.01, altitude = Some 110, fix_speed = None,
     accuracy = 80, fix_timestamp = 1000 \<rparr>"

text \<open>Two fixes at antipodal places.\<close>

definition fixE :: position where
  "fixE = \<lparr> latitude = 8, longitude = 0, altitude = None, fix_speed = None,
     accuracy = 15, fix_timestamp = 0 \<rparr>"

definition fixF :: position where
  "fixF = \<lparr> latitude = - 8, longitude = 180, altitude = None, fix_speed = None,
     accuracy = 15, fix_timestamp = 1000 \<rparr>"

definition ptA :: point where
  "ptA = \<lparr> lat = 0, lng = 0, alt = Some 10, timestamp = 0, speed = None \<rparr>"

definition ptN :: point where
  "ptN = \<lparr> lat = 0, lng = 180, alt = None, timestamp = 1000, speed = None \<rparr>"

definition ptZ :: point where
  "ptZ = \<lparr> lat = 0, lng = 0, alt = Some 0, timestamp = 0, speed = None \<rparr>"

text \<open>The two built-ins at the values of the examples.\<close>

definition showNum :: "real \<Rightarrow> string" where
  "showNum x =
     (if x = 0 then ''0'' else if x = 180 then ''180'' else if x = 10 then ''10'' else ''1.5'')"

definition showTime :: "int \<Rightarrow> string" where
  "showTime t =
     (if t = 0 then ''1970-01-01T00:00:00.000Z'' else ''1970-01-01T00:00:01.000Z'')"

section \<open>Properties\<close>

subsection \<open>Running a session\<close>

lemmas run_simps = run_def step_def avgSpeedEffect_def onPosition_def addPoint_def newPoint_def
  classify_def onError_def tick_def handleStart_def reset_def
  onDragEnd_def init_def Let_def

lemma run_snoc: "run (evs @ [e]) s = step e (run evs s)"
  by (simp add: run_def)

lemma run_Cons: "run (e # evs) s = run evs (step e s)"
  by (simp add: run_def)

subsection \<open>The great-circle distance\<close>

text \<open>The term \<open>a\<close> with the squares and the product of cosines written as sums.\<close>

lemma haversine_a_alt:
  "haversine_a lat1 lon1 lat2 lon2 =
     (1 - cos ((lat2 - lat1) * pi / 180)) / 2 +
     (cos ((lat1 - lat2) * pi / 180) + cos ((lat1 + lat2) * pi / 180)) / 2 *
     ((1 - cos ((lon2 - lon1) * pi / 180)) / 2)"
proof -
  have sq: "sin (x / 2) * sin (x / 2) = (1 - cos x) / 2" for x :: real
    using cos_double_sin [of "x / 2"] by (simp add: power2_eq_square)
  have pr: "cos x * cos y = (cos (x - y) + cos (x + y)) / 2" for x y :: real
    by (simp add: cos_add cos_diff)
  have "haversine_a lat1 lon1 lat2 lon2 =
     sin ((lat2 - lat1) * pi / 180 / 2) * sin ((lat2 - lat1) * pi / 180 / 2) +
     (cos (lat1 * pi / 180) * cos (lat2 * pi / 180)) *
     (sin ((lon2 - lon1) * pi / 180 / 2) * sin ((lon2 - lon1) * pi / 180 / 2))"
    by (simp add: haversine_a_def Let_def mult.assoc)
  also have "\<dots> = (1 - cos ((lat2 - lat1) * pi / 180)) / 2 +
     (cos (lat1 * pi / 180 - lat2 * pi / 180) + cos (lat1 * pi / 180 + lat2 * pi / 180)) / 2 *
     ((1 - cos ((lon2 - lon1) * pi / 180)) / 2)"
    by (simp only: sq pr)
  also have "lat1 * pi / 180 - lat2 * pi / 180 = (lat1 - lat2) * pi / 180"
    by (simp add: algebra_simps)
  also have "lat1 * pi / 180 + lat2 * pi / 180 = (lat1 + lat2) * pi / 180"
    by (simp add: algebra_simps)
  finally show ?thesis .
qed

lemma mix_bounds:
  fixes C D t :: real
  assumes C: "\<bar>C\<bar> \<le> 1" and D: "\<bar>D\<bar> \<le> 1" and t: "0 \<le> t" "t \<le> 1"
  shows "0 \<le> (1 - C) / 2 + (C + D) / 2 * t" and "(1 - C) / 2 + (C + D) / 2 * t \<le> 1"
proof -
  have e: "(1 - C) / 2 + (C + D) / 2 * t = (1 - C * (1 - t) + D * t) / 2"
    by (simp add: field_simps)
  have c1: "\<bar>C * (1 - t)\<bar> \<le> 1 - t"
    using C t by (simp add: abs_mult mult_left_le_one_le)
  have d1: "\<bar>D * t\<bar> \<le> t"
    using D t by (simp add: abs_mult mult_left_le_one_le)
  show "0 \<le> (1 - C) / 2 + (C + D) / 2 * t" unfolding e using c1 d1 by simp
  show "(1 - C) / 2 + (C + D) / 2 * t \<le> 1" unfolding e using c1 d1 by simp
qed

text \<open>The term \<open>a\<close> lies between 0 and 1 for all coordinates, so both square roots of
  \<open>haversine\<close> are taken of numbers that are not negative.\<close>

lemma haversine_a_bounds:
  "0 \<le> haversine_a lat1 lon1 lat2 lon2" "haversine_a lat1 lon1 lat2 lon2 \<le> 1"
proof -
  have C: "\<bar>cos ((lat1 - lat2) * pi / 180)\<bar> \<le> 1" by (rule abs_cos_le_one)
  have D: "\<bar>cos ((lat1 + lat2) * pi / 180)\<bar> \<le> 1" by (rule abs_cos_le_one)
  have sym: "cos ((lat2 - lat1) * pi / 180) = cos ((lat1 - lat2) * pi / 180)"
  proof -
    have "(lat2 - lat1) * pi / 180 = - ((lat1 - lat2) * pi / 180)" by (simp add: field_simps)
    then show ?thesis by (simp only: cos_minus)
  qed
  have t0: "0 \<le> (1 - cos ((lon2 - lon1) * pi / 180)) / 2" by simp
  have t1: "(1 - cos ((lon2 - lon1) * pi / 180)) / 2 \<le> 1"
    using cos_ge_minus_one [of "(lon2 - lon1) * pi / 180"] by simp
  show "0 \<le> haversine_a lat1 lon1 lat2 lon2"
    unfolding haversine_a_alt sym by (rule mix_bounds(1) [OF C D t0 t1])
  show "haversine_a lat1 lon1 lat2 lon2 \<le> 1"
    unfolding haversine_a_alt sym by (rule mix_bounds(2) [OF C D t0 t1])
qed

lemma atan2_nonneg:
  assumes y: "0 \<le> y"
  shows "0 \<le> atan2 y x"
proof -
  consider "0 < x" | "x < 0" | "x = 0" by linarith
  then show ?thesis
  proof cases
    case 1
    then show ?thesis using y by (simp add: atan2_def)
  next
    case 2
    have "- (pi / 2) < arctan (y / x)" by (rule arctan_lbound)
    moreover have "0 < pi" by (rule pi_gt_zero)
    ultimately have "0 \<le> arctan (y / x) + pi" by linarith
    with 2 y show ?thesis by (simp add: atan2_def)
  next
    case 3
    have "0 \<le> pi / 2" using pi_gt_zero by simp
    with 3 y show ?thesis by (simp add: atan2_def)
  qed
qed

lemma atan2_sqrt:
  assumes "0 \<le> a" "a \<le> 1"
  shows "atan2 (sqrt a) (sqrt (1 - a)) = arcsin (sqrt a)"
proof (cases "a = 1")
  case True
  then show ?thesis by (simp add: atan2_def)
next
  case False
  with assms have lt: "a < 1" by simp
  then have pos: "0 < sqrt (1 - a)" by simp
  have s1: "sqrt a < 1" using lt by simp
  have "0 \<le> sqrt a" using assms by simp
  then have s0: "- 1 < sqrt a" by linarith
  have "arcsin (sqrt a) = arctan (sqrt a / sqrt (1 - (sqrt a)\<^sup>2))"
    by (rule arcsin_arctan [OF s0 s1])
  also have "(sqrt a)\<^sup>2 = a" using assms by simp
  finally show ?thesis using pos by (simp add: atan2_def)
qed

text \<open>The code's \<open>2 atan2(\<surd>a, \<surd>(1 - a))\<close> is the angle \<open>2 arcsin \<surd>a\<close> of the haversine formula.\<close>

lemma haversine_arcsin:
  "haversine lat1 lon1 lat2 lon2 = 2 * 6371 * arcsin (sqrt (haversine_a lat1 lon1 lat2 lon2))"
  by (simp add: haversine_def Let_def atan2_sqrt haversine_a_bounds)

text \<open>Along the equator the distance is the arc between the two longitudes, up to half
  a turn.\<close>

lemma haversine_equator:
  assumes "0 \<le> d" "d \<le> 180"
  shows "haversine 0 lo 0 (lo + d) = 6371 * (d * pi / 180)"
proof -
  let ?x = "d * pi / 180 / 2"
  have x0: "0 \<le> ?x" using assms(1) pi_gt_zero by simp
  have "d * pi \<le> 180 * pi" using assms(2) pi_gt_zero by simp
  then have x1: "?x \<le> pi / 2" by simp
  have s0: "0 \<le> sin ?x" using x0 x1 pi_gt_zero by (intro sin_ge_zero) linarith+
  have a: "haversine_a 0 lo 0 (lo + d) = (sin ?x)\<^sup>2"
    by (simp add: haversine_a_def Let_def power2_eq_square)
  have r: "sqrt (haversine_a 0 lo 0 (lo + d)) = sin ?x"
    unfolding a using s0 by simp
  have "arcsin (sin ?x) = ?x"
    using x0 x1 by (intro arcsin_sin) linarith+
  then have "haversine 0 lo 0 (lo + d) = 2 * 6371 * ?x"
    by (simp only: haversine_arcsin r)
  then show ?thesis by simp
qed

lemma haversine_nonneg: "0 \<le> haversine lat1 lon1 lat2 lon2"
  unfolding haversine_def Let_def
  using atan2_nonneg [of "sqrt (haversine_a lat1 lon1 lat2 lon2)"]
    haversine_a_bounds(1) [of lat1 lon1 lat2 lon2]
  by simp

lemma haversine_half_turn: "haversine 0 0 0 180 = 6371 * pi"
  using haversine_equator [of 180 0] by simp

lemma haversine_hundredth: "haversine 0 0 0 (1 / 100) = 6371 * pi / 18000"
  using haversine_equator [of "1 / 100" 0] by simp

text \<open>On reals the code's formula is the great-circle distance of the law of cosines, for
  all coordinates.\<close>

lemma haversine_a_centralCos:
  "haversine_a lat1 lon1 lat2 lon2 = (1 - centralCos lat1 lon1 lat2 lon2) / 2"
proof -
  have d1: "(lat2 - lat1) * pi / 180 = lat2 * pi / 180 - lat1 * pi / 180"
    by (simp add: field_simps)
  have d2: "(lat1 - lat2) * pi / 180 = lat1 * pi / 180 - lat2 * pi / 180"
    by (simp add: field_simps)
  have d3: "(lat1 + lat2) * pi / 180 = lat1 * pi / 180 + lat2 * pi / 180"
    by (simp add: field_simps)
  have alg: "(1 - (c2 * c1 + s2 * s1)) / 2 +
      ((c1 * c2 + s1 * s2) + (c1 * c2 - s1 * s2)) / 2 * ((1 - cl) / 2) =
      (1 - (s1 * s2 + c1 * c2 * cl)) / 2" for c1 c2 s1 s2 cl :: real
    by (simp add: field_simps)
  show ?thesis
    unfolding haversine_a_alt centralCos_def d1 d2 d3 cos_diff cos_add by (rule alg)
qed

lemma haversine_greatCircle:
  "haversine lat1 lon1 lat2 lon2 = greatCircle lat1 lon1 lat2 lon2"
proof -
  let ?C = "centralCos lat1 lon1 lat2 lon2"
  let ?a = "haversine_a lat1 lon1 lat2 lon2"
  have a: "?a = (1 - ?C) / 2" by (rule haversine_a_centralCos)
  have C: "- 1 \<le> ?C" "?C \<le> 1"
    using haversine_a_bounds [of lat1 lon1 lat2 lon2] unfolding a by simp_all
  define th where "th = arccos ?C"
  have th: "0 \<le> th" "th \<le> pi" "cos th = ?C"
    using C by (simp_all add: th_def arccos_lbound arccos_ubound)
  have "sin (th / 2) * sin (th / 2) = (1 - cos th) / 2"
    using cos_double_sin [of "th / 2"] by (simp add: power2_eq_square)
  then have sq: "(sin (th / 2))\<^sup>2 = ?a" by (simp add: a th(3) power2_eq_square)
  have s0: "0 \<le> sin (th / 2)" using th(1,2) by (intro sin_ge_zero) simp_all
  have "sqrt ?a = sin (th / 2)" using sq s0 by (metis real_sqrt_abs abs_of_nonneg)
  moreover have "arcsin (sin (th / 2)) = th / 2"
    using th(1,2) pi_gt_zero by (intro arcsin_sin) linarith+
  ultimately have "haversine lat1 lon1 lat2 lon2 = 2 * 6371 * (th / 2)"
    by (simp only: haversine_arcsin)
  then show ?thesis by (simp add: greatCircle_def th_def)
qed

lemma haversine_quarter_turn: "haversine 0 0 90 0 = 6371 * pi / 2"
  by (simp add: haversine_greatCircle greatCircle_def centralCos_def)

subsection \<open>What a callback leaves alone\<close>

lemma lat_newPoint: "lat (newPoint pos) = latitude pos"
  by (simp add: newPoint_def)

lemma lng_newPoint: "lng (newPoint pos) = longitude pos"
  by (simp add: newPoint_def)

lemma addPoint_frame:
  "status (addPoint np s) = status s"
  "elapsedTime (addPoint np s) = elapsedTime s"
  "currentSpeed (addPoint np s) = currentSpeed s"
  "avgSpeed (addPoint np s) = avgSpeed s"
  "gpsSignal (addPoint np s) = gpsSignal s"
  "calories (addPoint np s) = calories s"
  by (simp_all add: addPoint_def Let_def)

lemma onPosition_frame:
  "status (onPosition pos s) = status s"
  "elapsedTime (onPosition pos s) = elapsedTime s"
  "avgSpeed (onPosition pos s) = avgSpeed s"
  "calories (onPosition pos s) = calories s"
  by (cases "fix_speed pos"; simp add: onPosition_def Let_def addPoint_frame)+

lemma points_addPoint: "points (addPoint np s) = points s @ [np]"
  by (simp add: addPoint_def Let_def)

lemma points_onPosition: "points (onPosition pos s) = points s @ [newPoint pos]"
  by (simp add: onPosition_def Let_def points_addPoint split: option.splits)

lemma avgSpeedEffect_frame:
  "status (avgSpeedEffect old s) = status s"
  "points (avgSpeedEffect old s) = points s"
  "distance (avgSpeedEffect old s) = distance s"
  "elapsedTime (avgSpeedEffect old s) = elapsedTime s"
  "elevationGain (avgSpeedEffect old s) = elevationGain s"
  "gpsSignal (avgSpeedEffect old s) = gpsSignal s"
  "calories (avgSpeedEffect old s) = calories s"
  by (simp_all add: avgSpeedEffect_def)

lemma avgSpeed_handler: "avgSpeed (handler e s) = avgSpeed s"
proof (cases e)
  case (Click c)
  then show ?thesis by (cases c) (simp_all add: handleStart_def reset_def)
qed (simp_all add: onPosition_frame onError_def tick_def Let_def onDragEnd_def)

text \<open>Only a control changes the status.\<close>

lemma status_step_other: "(\<And>c. e \<noteq> Click c) \<Longrightarrow> status (step e s) = status s"
  by (cases e) (auto simp: step_def avgSpeedEffect_frame onPosition_frame onError_def tick_def
      Let_def onDragEnd_def)

text \<open>The points of a session are the fixes delivered while it is active, in the order of
  their arrival.\<close>

lemma points_fixes:
  "status s = Active \<Longrightarrow> points (run (map Fix fs) s) = points s @ map newPoint fs \<and>
     status (run (map Fix fs) s) = Active"
proof (induction fs rule: rev_induct)
  case Nil
  then show ?case by (simp add: run_def)
next
  case (snoc f fs)
  then show ?case
    by (simp add: run_snoc step_def avgSpeedEffect_frame points_onPosition onPosition_frame)
qed

lemma points_session: "points (run (Click StartButton # map Fix fs) init) = map newPoint fs"
proof -
  have "status (step (Click StartButton) init) = Active"
    by (simp add: step_def init_def handleStart_def avgSpeedEffect_def)
  moreover have "points (step (Click StartButton) init) = []"
    by (simp add: step_def init_def handleStart_def avgSpeedEffect_def)
  ultimately show ?thesis using points_fixes [of "step (Click StartButton) init" fs]
    by (simp add: run_Cons)
qed

subsection \<open>The cumulative distance\<close>

lemma legs_snoc: "ps \<noteq> [] \<Longrightarrow>
  legs (ps @ [q]) = legs ps @ [haversine (lat (last ps)) (lng (last ps)) (lat q) (lng q)]"
  by (induction ps rule: legs.induct) auto

lemma trackLength_snoc: "ps \<noteq> [] \<Longrightarrow>
  trackLength (ps @ [q]) =
    trackLength ps + haversine (lat (last ps)) (lng (last ps)) (lat q) (lng q)"
  by (simp add: trackLength_def legs_snoc)

lemma trackLength_single: "trackLength [q] = 0"
  by (simp add: trackLength_def)

lemma trackLength_Nil: "trackLength [] = 0"
  by (simp add: trackLength_def)

lemma foldl_plus: "foldl (+) a xs = a + sum_list xs" for a :: real
  by (induction xs arbitrary: a) simp_all

lemma trackLength_sum: "trackLength ps = sum_list (legs ps)"
  by (simp add: trackLength_def foldl_plus)

lemma distance_addPoint: "distance (addPoint np s) =
  (if points s = [] then distance s
   else distance s + haversine (lat (last (points s))) (lng (last (points s))) (lat np) (lng np))"
  by (simp add: addPoint_def Let_def)

lemma distance_onPosition: "distance (onPosition pos s) =
  (if points s = [] then distance s
   else distance s + haversine (lat (last (points s))) (lng (last (points s)))
          (latitude pos) (longitude pos))"
  by (simp add: onPosition_def Let_def distance_addPoint newPoint_def split: option.splits)

lemma distance_inv_handler: "distance_inv s \<Longrightarrow> distance_inv (handler e s)"
proof (cases e)
  case (Fix pos)
  assume "distance_inv s"
  then show ?thesis unfolding Fix
    by (cases "points s = []")
       (simp_all add: distance_inv_def points_onPosition distance_onPosition
          trackLength_snoc trackLength_single trackLength_Nil lat_newPoint lng_newPoint)
next
  case (Click c)
  assume "distance_inv s"
  then show ?thesis unfolding Click
    by (cases c) (simp_all add: distance_inv_def handleStart_def reset_def trackLength_def)
qed (simp_all add: distance_inv_def onError_def tick_def Let_def onDragEnd_def)

lemma distance_inv_step: "distance_inv s \<Longrightarrow> distance_inv (step e s)"
  using distance_inv_handler [of s e]
  by (simp add: step_def distance_inv_def avgSpeedEffect_frame)

lemma distance_inv_run: "distance_inv s \<Longrightarrow> distance_inv (run evs s)"
  unfolding run_def by (induction evs arbitrary: s) (simp_all add: distance_inv_step)

lemma distance_inv_init: "distance_inv init"
  by (simp add: distance_inv_def init_def trackLength_def)

lemma distance_handler_mono:
  "e \<noteq> Click ResetButton \<Longrightarrow> distance s \<le> distance (handler e s)"
proof (cases e)
  case (Fix pos)
  show ?thesis unfolding Fix by (simp add: distance_onPosition haversine_nonneg)
next
  case (Click c)
  assume "e \<noteq> Click ResetButton"
  with Click show ?thesis by (cases c) (simp_all add: handleStart_def)
qed (simp_all add: onError_def tick_def Let_def onDragEnd_def)

lemma distance_step_mono:
  "e \<noteq> Click ResetButton \<Longrightarrow> distance s \<le> distance (step e s)"
  using distance_handler_mono [of e s] by (simp add: step_def avgSpeedEffect_frame)

text \<open>
  The cumulative distance on reals.  After any sequence of events it is the length of
  the track: the sum, in the order of arrival, of the great-circle distances between each
  point and the next, on a sphere of radius 6371 km.  The points carry the coordinates of
  the fixes accepted while the session is active, in their order.  No event but the
  reset makes the distance smaller.  This is the cumulative distance of the
  specification, and it is what the code computes, up to rounding, as long as no term
  \<open>a\<close> rounds above 1; the pair of fixes at which the code returns \<open>NaN\<close> instead is in
  the subsection on the distance in binary64.
\<close>

lemma distance_track:
  "distance (run evs init) = trackLength (points (run evs init)) \<and>
   trackLength ps = sum_list (legs ps) \<and>
   haversine lat1 lon1 lat2 lon2 = greatCircle lat1 lon1 lat2 lon2 \<and>
   map lat (points (run (Click StartButton # map Fix fs) init)) = map latitude fs \<and>
   map lng (points (run (Click StartButton # map Fix fs) init)) = map longitude fs \<and>
   (e \<noteq> Click ResetButton \<longrightarrow> distance (run evs init) \<le> distance (run (evs @ [e]) init))"
proof -
  have "distance (run evs init) = trackLength (points (run evs init))"
    using distance_inv_run [OF distance_inv_init, of evs] by (simp add: distance_inv_def)
  moreover have "distance (run evs init) \<le> distance (run (evs @ [e]) init)"
    if "e \<noteq> Click ResetButton"
    using distance_step_mono [OF that, of "run evs init"] by (simp add: run_snoc)
  ultimately show ?thesis
    by (simp add: trackLength_sum points_session haversine_greatCircle comp_def
        lat_newPoint lng_newPoint)
qed

lemma distance_track_examples:
  "distance (run [Click StartButton, Fix fixA] init) = 0 \<and>
   distance (run [Click StartButton, Fix fixA, Fix fixB] init) = 6371 * pi \<and>
   distance (run [Click StartButton, Fix fixC, Fix fixD] init) = 6371 * pi / 18000 \<and>
   haversine 0 0 90 0 = 6371 * pi / 2"
  by (simp add: run_simps fixA_def fixB_def fixC_def fixD_def
      haversine_half_turn haversine_hundredth haversine_quarter_turn)

subsection \<open>The elevation gain\<close>

lemma elevationGain_addPoint:
  "elevationGain (addPoint np s) =
     (if points s \<noteq> [] \<and> truthy (alt np) \<and> truthy (alt (last (points s))) \<and>
         the (alt np) > the (alt (last (points s)))
      then elevationGain s + (the (alt np) - the (alt (last (points s))))
      else elevationGain s)"
  by (simp add: addPoint_def Let_def)

lemma elevationGain_onPosition:
  "elevationGain (onPosition pos s) =
     (if points s \<noteq> [] \<and> truthy (altitude pos) \<and> truthy (alt (last (points s))) \<and>
         the (altitude pos) > the (alt (last (points s)))
      then elevationGain s + (the (altitude pos) - the (alt (last (points s))))
      else elevationGain s)"
  by (cases "fix_speed pos")
     (simp_all add: onPosition_def Let_def elevationGain_addPoint newPoint_def)






subsection \<open>Rounding to a double\<close>

lemma binade_eq:
  assumes "2 powr of_int k \<le> \<bar>x\<bar>" "\<bar>x\<bar> < 2 powr of_int (k + 1)"
  shows "binade x = k"
proof -
  have "0 < \<bar>x\<bar>" using assms(1) by (smt (verit) powr_gt_zero)
  then show ?thesis
    using assms floor_log_eq_powr_iff [of "\<bar>x\<bar>" 2 k] by (simp add: binade_def)
qed

lemma binade_bounds:
  assumes "x \<noteq> 0"
  shows "2 powr of_int (binade x) \<le> \<bar>x\<bar>" "\<bar>x\<bar> < 2 powr of_int (binade x + 1)"
  using assms floor_log_eq_powr_iff [of "\<bar>x\<bar>" 2 "binade x"] by (simp_all add: binade_def)

lemma binade_ge: "2 powr of_int k \<le> \<bar>x\<bar> \<Longrightarrow> k \<le> binade x"
proof -
  assume a: "2 powr of_int k \<le> \<bar>x\<bar>"
  then have "0 < \<bar>x\<bar>" by (smt (verit) powr_gt_zero)
  then have "of_int k \<le> log 2 \<bar>x\<bar>" using a by (simp add: le_log_iff)
  then show ?thesis unfolding binade_def by (simp add: le_floor_iff)
qed

lemma binade_mono: "0 < x \<Longrightarrow> x \<le> y \<Longrightarrow> binade x \<le> binade y"
  unfolding binade_def by (intro floor_mono) simp

text \<open>How \<open>fl\<close> is evaluated: the binade is given and checked.\<close>

lemma fl_eval:
  assumes "2 powr of_int k \<le> \<bar>x\<bar>" "\<bar>x\<bar> < 2 powr of_int (k + 1)" "- 1022 \<le> k"
  shows "fl x = of_int (roundEven (x / 2 powr of_int (k - 52))) * 2 powr of_int (k - 52)"
proof -
  have "x \<noteq> 0" using assms(1) by (smt (verit) powr_gt_zero)
  moreover have "binade x = k" by (rule binade_eq [OF assms(1,2)])
  ultimately show ?thesis using assms(3) by (simp add: fl_def ulp_def max_def)
qed

lemma roundEven_floor: "\<lfloor>q\<rfloor> \<le> roundEven q" "roundEven q \<le> \<lfloor>q\<rfloor> + 1"
  by (simp_all add: roundEven_def Let_def)

lemma roundEven_near: "\<bar>of_int (roundEven q) - q\<bar> \<le> 1 / 2"
proof -
  have "of_int \<lfloor>q\<rfloor> \<le> q" "q < of_int \<lfloor>q\<rfloor> + 1" by linarith+
  then show ?thesis by (auto simp: roundEven_def Let_def)
qed

lemma roundEven_mono: "q \<le> r \<Longrightarrow> roundEven q \<le> roundEven r"
proof -
  assume qr: "q \<le> r"
  then have f: "\<lfloor>q\<rfloor> \<le> \<lfloor>r\<rfloor>" by (rule floor_mono)
  show ?thesis
  proof (cases "\<lfloor>q\<rfloor> = \<lfloor>r\<rfloor>")
    case True
    with qr show ?thesis by (auto simp: roundEven_def Let_def)
  next
    case False
    with f have "\<lfloor>q\<rfloor> + 1 \<le> \<lfloor>r\<rfloor>" by simp
    with roundEven_floor(2) [of q] roundEven_floor(1) [of r] show ?thesis by linarith
  qed
qed

lemma roundEven_of_int: "roundEven (of_int n) = n"
  by (simp add: roundEven_def Let_def)

lemma roundEven_ge_int: "of_int n \<le> q \<Longrightarrow> n \<le> roundEven q"
  using roundEven_mono [of "of_int n" q] by (simp add: roundEven_of_int)

lemma roundEven_le_int: "q \<le> of_int n \<Longrightarrow> roundEven q \<le> n"
  using roundEven_mono [of q "of_int n"] by (simp add: roundEven_of_int)

lemma pow2_split52: "(2::real) powr of_int e = 2 powr of_int (e - 52) * 2 ^ 52"
  by (simp add: powr_diff)

lemma pow2_split53: "(2::real) powr of_int (e + 1) = 2 powr of_int (e - 52) * 2 ^ 53"
  by (simp add: powr_diff powr_add)

lemma ulp_pos: "0 < ulp x"
  by (simp add: ulp_def)

lemma fl_nonneg: "0 \<le> x \<Longrightarrow> 0 \<le> fl x"
proof -
  assume "0 \<le> x"
  then have "of_int 0 \<le> x / ulp x" using ulp_pos [of x] by simp
  then have "0 \<le> roundEven (x / ulp x)" by (rule roundEven_ge_int)
  then show ?thesis using ulp_pos [of x] by (simp add: fl_def)
qed

lemma fl_upper:
  assumes "0 < x"
  shows "fl x \<le> 2 powr of_int (max (binade x) (- 1022) + 1)"
proof -
  let ?e = "max (binade x) (- 1022)"
  have "x < 2 powr of_int (binade x + 1)" using binade_bounds(2) [of x] assms by simp
  also have "\<dots> \<le> 2 powr of_int (?e + 1)" by simp
  finally have x: "x \<le> 2 powr of_int (?e + 1)" by simp
  have u: "ulp x = 2 powr of_int (?e - 52)" by (simp add: ulp_def)
  have p: "2 powr of_int (?e + 1) = ulp x * of_int (2 ^ 53)"
    unfolding u pow2_split53 [of ?e] by simp
  have "x / ulp x \<le> of_int (2 ^ 53)"
    using x ulp_pos [of x] unfolding p by (simp add: field_simps)
  then have "roundEven (x / ulp x) \<le> 2 ^ 53" by (rule roundEven_le_int)
  then have "of_int (roundEven (x / ulp x)) * ulp x \<le> of_int (2 ^ 53) * ulp x"
    using ulp_pos [of x] by (intro mult_right_mono) (simp_all del: of_int_power of_int_numeral)
  with assms show ?thesis unfolding p by (simp add: fl_def mult.commute)
qed

lemma fl_lower:
  assumes "0 < x"
  shows "2 powr of_int (binade x) \<le> fl x \<or> binade x < - 1022"
proof (cases "binade x < - 1022")
  case True
  then show ?thesis by simp
next
  case False
  then have u: "ulp x = 2 powr of_int (binade x - 52)" by (simp add: ulp_def max_def)
  have p: "2 powr of_int (binade x) = ulp x * of_int (2 ^ 52)"
    unfolding u pow2_split52 [of "binade x"] by simp
  have "2 powr of_int (binade x) \<le> x" using binade_bounds(1) [of x] assms by simp
  then have "of_int (2 ^ 52) \<le> x / ulp x"
    using ulp_pos [of x] unfolding p by (simp add: field_simps)
  then have "2 ^ 52 \<le> roundEven (x / ulp x)" by (rule roundEven_ge_int)
  then have "of_int (2 ^ 52) * ulp x \<le> of_int (roundEven (x / ulp x)) * ulp x"
    using ulp_pos [of x] by (intro mult_right_mono) (simp_all del: of_int_power of_int_numeral)
  with assms show ?thesis unfolding p by (simp add: fl_def mult.commute)
qed

text \<open>Rounding keeps the order of numbers that are not negative.\<close>

lemma fl_mono:
  assumes "0 \<le> x" "x \<le> y"
  shows "fl x \<le> fl y"
proof (cases "x = 0")
  case True
  then show ?thesis using fl_nonneg [of y] assms by (simp add: fl_def)
next
  case False
  with assms have x: "0 < x" and y: "0 < y" by simp_all
  let ?ex = "max (binade x) (- 1022)" and ?ey = "max (binade y) (- 1022)"
  have le: "?ex \<le> ?ey" using binade_mono [OF x assms(2)] by simp
  show ?thesis
  proof (cases "?ex = ?ey")
    case True
    then have u: "ulp x = ulp y" by (simp add: ulp_def)
    have "x / ulp y \<le> y / ulp y" using assms(2) ulp_pos [of y] by (simp add: divide_right_mono)
    then have "roundEven (x / ulp y) \<le> roundEven (y / ulp y)" by (rule roundEven_mono)
    then have "of_int (roundEven (x / ulp y)) * ulp y \<le> of_int (roundEven (y / ulp y)) * ulp y"
      using ulp_pos [of y] by (intro mult_right_mono) simp_all
    with x y show ?thesis by (simp add: fl_def u)
  next
    case False
    with le have lt: "?ex + 1 \<le> ?ey" by simp
    then have ey: "?ey = binade y" "\<not> binade y < - 1022"
      by (auto simp: max_def split: if_splits)
    have "fl x \<le> 2 powr of_int (?ex + 1)" by (rule fl_upper [OF x])
    also have "\<dots> \<le> 2 powr of_int (binade y)" using lt by (simp add: ey(1) del: of_int_add)
    also have "\<dots> \<le> fl y" using fl_lower [OF y] ey(2) by simp
    finally show ?thesis .
  qed
qed

text \<open>The relative error of one rounding, for a number that is not subnormal.\<close>

lemma fl_error:
  assumes "x \<noteq> 0" "- 1022 \<le> binade x"
  shows "\<bar>fl x - x\<bar> \<le> \<bar>x\<bar> / 2 ^ 53"
proof -
  have u: "ulp x = 2 powr of_int (binade x - 52)" using assms(2) by (simp add: ulp_def max_def)
  have p: "2 powr of_int (binade x) = ulp x * 2 ^ 52"
    unfolding u pow2_split52 [of "binade x"] by simp
  have b: "ulp x * 2 ^ 52 \<le> \<bar>x\<bar>" using binade_bounds(1) [OF assms(1)] unfolding p .
  have "fl x - x = (of_int (roundEven (x / ulp x)) - x / ulp x) * ulp x"
    using assms(1) ulp_pos [of x] by (simp add: fl_def left_diff_distrib)
  then have "\<bar>fl x - x\<bar> = \<bar>of_int (roundEven (x / ulp x)) - x / ulp x\<bar> * ulp x"
    using ulp_pos [of x] by (simp add: abs_mult)
  also have "\<dots> \<le> 1 / 2 * ulp x"
    using roundEven_near [of "x / ulp x"] ulp_pos [of x] by (intro mult_right_mono) simp_all
  also have "\<dots> \<le> \<bar>x\<bar> / 2 ^ 53" using b by simp
  finally show ?thesis .
qed

lemma two_roundings:
  fixes q d z c e :: real
  assumes q: "0 < q" and c: "0 < c" and e: "0 \<le> e" "e \<le> 1"
    and d: "\<bar>d - q\<bar> \<le> q * e" and z: "\<bar>z - c * d\<bar> \<le> \<bar>c * d\<bar> * e"
  shows "\<bar>z - c * q\<bar> \<le> 3 * (c * q * e)"
proof -
  have A: "0 < c * q" using q c by simp
  have E1: "c * q * e \<le> c * q" using A e by (simp add: mult_left_le)
  have "c * \<bar>d - q\<bar> \<le> c * (q * e)" using d c by (intro mult_left_mono) simp_all
  then have cd: "\<bar>c * d - c * q\<bar> \<le> c * q * e"
    using c by (simp add: abs_mult right_diff_distrib [symmetric] mult.assoc)
  then have up: "\<bar>c * d\<bar> \<le> 2 * (c * q)" using E1 by linarith
  have "\<bar>c * d\<bar> * e \<le> 2 * (c * q) * e" using up e(1) by (intro mult_right_mono)
  with z have "\<bar>z - c * d\<bar> \<le> 2 * (c * q * e)" by simp
  with cd show "\<bar>z - c * q\<bar> \<le> 3 * (c * q * e)" by linarith
qed

subsection \<open>The calories\<close>

lemma fl_1: "fl 1 = 1"
  using fl_eval [of 0 1] by (simp add: roundEven_def Let_def powr_neg_numeral)

lemma fl_420: "fl 420 = 420"
  using fl_eval [of 8 420] by (simp add: roundEven_def Let_def powr_neg_numeral)

lemma fmul_6_70: "fmul 6 70 = 420"
  using fl_420 by (simp add: fmul_def)

lemma caloriesAt_0: "caloriesAt 0 = 0"
  by (simp add: caloriesAt_def fmul_def fdiv_def fl_def Math_round_def)

lemma caloriesAt_mono: "t \<le> t' \<Longrightarrow> caloriesAt t \<le> caloriesAt t'"
proof -
  assume "t \<le> t'"
  then have "real t / 3600 \<le> real t' / 3600" by (simp add: divide_right_mono)
  then have d: "fdiv (real t) 3600 \<le> fdiv (real t') 3600"
    unfolding fdiv_def by (intro fl_mono) simp_all
  have "0 \<le> fdiv (real t) 3600" unfolding fdiv_def by (intro fl_nonneg) simp
  then have "fmul 420 (fdiv (real t) 3600) \<le> fmul 420 (fdiv (real t') 3600)"
    unfolding fmul_def using d by (intro fl_mono) simp_all
  then have "\<lfloor>fmul 420 (fdiv (real t) 3600) + 1 / 2\<rfloor>
      \<le> \<lfloor>fmul 420 (fdiv (real t') 3600) + 1 / 2\<rfloor>"
    by (intro floor_mono) simp
  then show ?thesis by (simp add: caloriesAt_def Math_round_def fmul_6_70)
qed

text \<open>The computed product is within three roundings' worth of the exact one.\<close>

lemma calories_error:
  assumes "0 < t"
  shows "\<bar>fmul 420 (fdiv (real t) 3600) - 420 * (real t / 3600)\<bar>
           \<le> 3 * (420 * (real t / 3600) * (1 / 2 ^ 53))"
proof -
  define q where "q = real t / 3600"
  define d where "d = fdiv (real t) 3600"
  have dq: "d = fl q" by (simp add: d_def q_def fdiv_def)
  have q1: "1 / 3600 \<le> q" using assms by (simp add: q_def)
  then have q0: "0 < q" by linarith
  have "1 / 4096 \<le> \<bar>q\<bar>" using q1 by linarith
  then have "2 powr of_int (- 12) \<le> \<bar>q\<bar>" by (simp add: powr_neg_numeral)
  then have "- 12 \<le> binade q" by (rule binade_ge)
  then have bq: "- 1022 \<le> binade q" by simp
  have eq: "\<bar>d - q\<bar> \<le> q * (1 / 2 ^ 53)"
    using fl_error [of q] q0 bq by (simp add: dq)
  have "q * (1 / 2 ^ 53) \<le> q * (1 / 2)" using q0 by (intro mult_left_mono) simp_all
  then have half: "\<bar>d - q\<bar> \<le> q * (1 / 2)" using eq by linarith
  have "q * (1 / 2) = q / 2" by simp
  with half have dlow: "q / 2 \<le> d" by linarith
  have "1 / 7200 \<le> q / 2" using q1 by linarith
  with dlow have d1: "1 / 7200 \<le> d" by linarith
  then have y1: "1 / 4096 \<le> 420 * d" by linarith
  then have "1 / 4096 \<le> \<bar>420 * d\<bar>" by linarith
  then have "2 powr of_int (- 12) \<le> \<bar>420 * d\<bar>" by (simp add: powr_neg_numeral)
  then have "- 12 \<le> binade (420 * d)" by (rule binade_ge)
  then have byy: "- 1022 \<le> binade (420 * d)" by simp
  have y0: "420 * d \<noteq> 0" using y1 by linarith
  have ey: "\<bar>fmul 420 d - 420 * d\<bar> \<le> \<bar>420 * d\<bar> * (1 / 2 ^ 53)"
    using fl_error [OF y0 byy] by (simp add: fmul_def)
  have "\<bar>fmul 420 d - 420 * q\<bar> \<le> 3 * (420 * q * (1 / 2 ^ 53))"
    by (rule two_roundings [OF q0 _ _ _ eq ey]) simp_all
  then show ?thesis by (simp only: q_def d_def)
qed

lemma calories_near:
  assumes "t < 2 ^ 48"
  shows "\<bar>fmul 420 (fdiv (real t) 3600) - 420 * (real t / 3600)\<bar> < 1 / 60"
proof (cases "t = 0")
  case True
  then show ?thesis by (simp add: fmul_def fdiv_def fl_def)
next
  case False
  then have "0 < t" by simp
  note calories_error [OF this]
  moreover have "real t < 2 ^ 48" using assms by (simp flip: of_nat_less_iff add: of_nat_power)
  then have "3 * (420 * (real t / 3600) * (1 / 2 ^ 53)) < 1 / 60" by simp
  ultimately show ?thesis by linarith
qed

text \<open>A number within a sixtieth of \<open>N / 60\<close> has the floor of \<open>N / 60\<close>, unless \<open>N / 60\<close> is
  an integer: then it has that floor or the one below.\<close>

lemma floor_near:
  fixes y z :: real and N :: int
  assumes z: "z = of_int N / 60" and near: "\<bar>y - z\<bar> < 1 / 60"
  shows "N mod 60 \<noteq> 0 \<Longrightarrow> \<lfloor>y\<rfloor> = \<lfloor>z\<rfloor>"
    and "N mod 60 = 0 \<Longrightarrow> \<lfloor>y\<rfloor> = \<lfloor>z\<rfloor> \<or> \<lfloor>y\<rfloor> = \<lfloor>z\<rfloor> - 1"
proof -
  define k where "k = N div 60"
  define r where "r = N mod 60"
  have N: "N = 60 * k + r" by (simp add: k_def r_def)
  have r: "0 \<le> r" "r < 60" by (simp_all add: r_def)
  have zk: "z = of_int k + of_int r / 60" unfolding z N by simp
  have r0: "0 \<le> (of_int r :: real)" using r(1) by simp
  have "r \<le> 59" using r(2) by simp
  then have "(of_int r :: real) \<le> of_int 59" by (simp only: of_int_le_iff)
  then have r59: "(of_int r :: real) \<le> 59" by simp
  have fz: "\<lfloor>z\<rfloor> = k"
    unfolding zk using r0 r59 by (intro floor_unique) simp_all
  have lo: "z - 1 / 60 < y" and hi: "y < z + 1 / 60" using near by linarith+
  {
    assume "N mod 60 \<noteq> 0"
    then have "1 \<le> r" using r(1) by (simp add: r_def)
    then have "(of_int 1 :: real) \<le> of_int r" by (simp only: of_int_le_iff)
    then have r1: "1 \<le> (of_int r :: real)" by simp
    have "\<lfloor>y\<rfloor> = k"
      using lo hi r1 r59 unfolding zk by (intro floor_unique) simp_all
    then show "\<lfloor>y\<rfloor> = \<lfloor>z\<rfloor>" by (simp add: fz)
  }
  {
    assume "N mod 60 = 0"
    then have "r = 0" by (simp add: r_def)
    then have zk0: "z = of_int k" by (simp add: zk)
    show "\<lfloor>y\<rfloor> = \<lfloor>z\<rfloor> \<or> \<lfloor>y\<rfloor> = \<lfloor>z\<rfloor> - 1"
    proof (cases "of_int k \<le> y")
      case True
      then have "\<lfloor>y\<rfloor> = k" using hi unfolding zk0 by (intro floor_unique) simp_all
      then show ?thesis by (simp add: fz)
    next
      case False
      then have "\<lfloor>y\<rfloor> = k - 1" using lo unfolding zk0 by (intro floor_unique) simp_all
      then show ?thesis by (simp add: fz)
    qed
  }
qed

text \<open>The exact value \<open>7 t / 60\<close> lies halfway between two integers exactly when \<open>t\<close> leaves
  the remainder 30 on division by 60.\<close>

lemma tie_iff: "(7 * int t + 30) mod 60 = 0 \<longleftrightarrow> t mod 60 = 30"
proof -
  have "(7 * int t + 30) mod 60 = 0 \<longleftrightarrow> 60 dvd (7 * int t + 30)"
    by (simp add: dvd_eq_mod_eq_0)
  also have "\<dots> \<longleftrightarrow> 60 dvd (int t - 30)"
  proof -
    have e: "43 * (7 * int t + 30) = (int t - 30) + 60 * (5 * int t + 22)" by simp
    have e2: "7 * int t + 30 = 7 * (int t - 30) + 60 * 4" by simp
    show ?thesis
    proof
      assume "60 dvd (7 * int t + 30)"
      then have "60 dvd 43 * (7 * int t + 30)" by (rule dvd_mult)
      then have "60 dvd (int t - 30) + 60 * (5 * int t + 22)" by (simp only: e)
      moreover have "(60::int) dvd 60 * (5 * int t + 22)" by simp
      ultimately show "60 dvd (int t - 30)" by (simp only: dvd_add_left_iff)
    next
      assume "60 dvd (int t - 30)"
      then have "60 dvd 7 * (int t - 30)" by (rule dvd_mult)
      moreover have "(60::int) dvd 60 * 4" by simp
      ultimately have "60 dvd 7 * (int t - 30) + 60 * 4" by (simp only: dvd_add_left_iff)
      then show "60 dvd (7 * int t + 30)" by (simp only: e2)
    qed
  qed
  also have "\<dots> \<longleftrightarrow> int t mod 60 = 30"
    using mod_eq_dvd_iff [of "int t" 60 30] by simp
  also have "\<dots> \<longleftrightarrow> int (t mod 60) = int 30" by (simp add: zmod_int)
  also have "\<dots> \<longleftrightarrow> t mod 60 = 30" by (simp only: of_nat_eq_iff)
  finally show ?thesis .
qed

lemma caloriesAt_characterised:
  assumes "t < 2 ^ 48"
  shows "t mod 60 \<noteq> 30 \<Longrightarrow> caloriesAt t = Math_round (6.0 * 70 * (real t / 3600))"
    and "t mod 60 = 30 \<Longrightarrow> caloriesAt t = Math_round (6.0 * 70 * (real t / 3600)) \<or>
           caloriesAt t = Math_round (6.0 * 70 * (real t / 3600)) - 1"
proof -
  let ?y = "fmul 420 (fdiv (real t) 3600) + 1 / 2"
  let ?z = "420 * (real t / 3600) + 1 / 2"
  have z: "?z = of_int (7 * int t + 30) / 60" by simp
  have near: "\<bar>?y - ?z\<bar> < 1 / 60" using calories_near [OF assms] by simp
  have c: "caloriesAt t = \<lfloor>?y\<rfloor>" by (simp add: caloriesAt_def Math_round_def fmul_6_70)
  have m: "Math_round (6.0 * 70 * (real t / 3600)) = \<lfloor>?z\<rfloor>" by (simp add: Math_round_def)
  {
    assume "t mod 60 \<noteq> 30"
    then have "(7 * int t + 30) mod 60 \<noteq> 0" by (simp add: tie_iff)
    from floor_near(1) [OF z near this]
    show "caloriesAt t = Math_round (6.0 * 70 * (real t / 3600))" by (simp only: c m)
  }
  {
    assume "t mod 60 = 30"
    then have "(7 * int t + 30) mod 60 = 0" by (simp add: tie_iff)
    from floor_near(2) [OF z near this]
    show "caloriesAt t = Math_round (6.0 * 70 * (real t / 3600)) \<or>
           caloriesAt t = Math_round (6.0 * 70 * (real t / 3600)) - 1" by (simp only: c m)
  }
qed

text \<open>Three values.  After one second the quotient is \<open>5124095576030431 / 2^64\<close>.  After
  1950 seconds the quotient is rounded down to \<open>4878899596318037 / 2^53\<close> and the product
  to \<open>8004444650209279 / 2^45\<close>, just below 227.5.\<close>

lemma fdiv_1: "fdiv 1 3600 = 5124095576030431 / 18446744073709551616"
  using fl_eval [of "- 12" "1 / 3600"]
  by (simp add: fdiv_def roundEven_def Let_def powr_neg_numeral)

lemma fmul_1: "Math_round (fmul 420 (5124095576030431 / 18446744073709551616)) = 0"
proof -
  have e: "fmul 420 (5124095576030431 / 18446744073709551616) =
      of_int (roundEven (420 * (5124095576030431 / 18446744073709551616)
          / 2 powr of_int (- 4 - 52))) * 2 powr of_int (- 4 - 52)"
    unfolding fmul_def by (rule fl_eval) (simp_all add: powr_neg_numeral)
  show ?thesis
    unfolding e by (simp add: Math_round_def roundEven_def Let_def powr_neg_numeral)
qed

lemma caloriesAt_1: "caloriesAt 1 = 0"
  by (simp add: caloriesAt_def fmul_6_70 fdiv_1 fmul_1)

lemma caloriesAt_Suc_0: "caloriesAt (Suc 0) = 0"
  using caloriesAt_1 by simp

lemma fdiv_1950: "fdiv 1950 3600 = 4878899596318037 / 9007199254740992"
  using fl_eval [of "- 1" "1950 / 3600"]
  by (simp add: fdiv_def roundEven_def Let_def powr_neg_numeral)

lemma fmul_1950:
  "fmul 420 (4878899596318037 / 9007199254740992) = 8004444650209279 / 35184372088832"
  using fl_eval [of 7 "420 * (4878899596318037 / 9007199254740992)"]
  by (simp add: fmul_def roundEven_def Let_def powr_neg_numeral)

lemma caloriesAt_1950: "caloriesAt 1950 = 227"
  by (simp add: caloriesAt_def fmul_6_70 fdiv_1950 fmul_1950 Math_round_def)

lemma caloriesAt_3600: "caloriesAt 3600 = 420"
  by (simp add: caloriesAt_def fmul_6_70 fdiv_def fl_1 fmul_def fl_420 Math_round_def)

lemma calories_inv_handler: "calories_inv s \<Longrightarrow> calories_inv (handler e s)"
proof (cases e)
  case (Fix pos)
  assume "calories_inv s"
  then show ?thesis unfolding Fix by (simp add: calories_inv_def onPosition_frame)
next
  case (Click c)
  assume "calories_inv s"
  then show ?thesis unfolding Click
    by (cases c) (simp_all add: calories_inv_def handleStart_def reset_def caloriesAt_0)
qed (simp_all add: calories_inv_def onError_def tick_def Let_def onDragEnd_def)

lemma calories_inv_step: "calories_inv s \<Longrightarrow> calories_inv (step e s)"
  using calories_inv_handler [of s e]
  by (simp add: step_def calories_inv_def avgSpeedEffect_frame)

lemma calories_inv_run: "calories_inv s \<Longrightarrow> calories_inv (run evs s)"
  unfolding run_def by (induction evs arbitrary: s) (simp_all add: calories_inv_step)

lemma calories_inv_init: "calories_inv init"
  by (simp add: calories_inv_def init_def caloriesAt_0)

lemma elapsedTime_tick: "status s = Active \<Longrightarrow> elapsedTime (step Tick s) = elapsedTime s + 1"
  by (simp add: step_def tick_def Let_def avgSpeedEffect_frame)

text \<open>A session that is started and ticks \<open>n\<close> times.\<close>

lemma ticks_run:
  "status (run (Click StartButton # replicate n Tick) init) = Active \<and>
   elapsedTime (run (Click StartButton # replicate n Tick) init) = n"
proof (induction n)
  case 0
  show ?case by (simp add: run_def step_def init_def handleStart_def avgSpeedEffect_def)
next
  case (Suc n)
  have "Click StartButton # replicate (Suc n) Tick =
      (Click StartButton # replicate n Tick) @ [Tick]"
    by (simp add: replicate_append_same)
  then have "run (Click StartButton # replicate (Suc n) Tick) init =
      step Tick (run (Click StartButton # replicate n Tick) init)"
    by (simp only: run_snoc)
  with Suc show ?case
    by (simp add: elapsedTime_tick) (simp add: step_def avgSpeedEffect_frame tick_def Let_def)
qed

text \<open>
  Claim C3, as amended.  After any sequence of events the calories are \<open>Math.round\<close> of
  the double that \<open>6.0 * 70 * (t / 3600)\<close> evaluates to for the elapsed seconds \<open>t\<close>, the
  quotient and the products each rounded to the nearest double.  A tick of an active
  session adds one second and does not lower the calories, and the calories as a
  function of the seconds never decrease.  For less than \<open>2^48\<close> seconds the calories are
  the exact \<open>round (6.0 \<times> 70 \<times> t / 3600)\<close> whenever \<open>t mod 60\<close> is not 30, and that number or
  one less when \<open>t mod 60\<close> is 30, where the exact value is a tie.
\<close>

theorem C3_calories:
  "calories (run evs init) =
     Math_round (fmul (fmul 6.0 70) (fdiv (real (elapsedTime (run evs init))) 3600)) \<and>
   (status (run evs init) = Active \<longrightarrow>
      elapsedTime (run (evs @ [Tick]) init) = elapsedTime (run evs init) + 1 \<and>
      calories (run evs init) \<le> calories (run (evs @ [Tick]) init)) \<and>
   (t \<le> t' \<longrightarrow> caloriesAt t \<le> caloriesAt t') \<and>
   (n < 2 ^ 48 \<and> n mod 60 \<noteq> 30 \<longrightarrow>
      caloriesAt n = Math_round (6.0 * 70 * (real n / 3600))) \<and>
   (n < 2 ^ 48 \<and> n mod 60 = 30 \<longrightarrow>
      caloriesAt n = Math_round (6.0 * 70 * (real n / 3600)) \<or>
      caloriesAt n = Math_round (6.0 * 70 * (real n / 3600)) - 1)"
proof -
  let ?s = "run evs init"
  have a: "calories ?s = caloriesAt (elapsedTime ?s)"
    using calories_inv_run [OF calories_inv_init, of evs] by (simp add: calories_inv_def)
  have c: "run (evs @ [Tick]) init = step Tick ?s" by (simp add: run_def)
  have b: "calories (step Tick ?s) = caloriesAt (elapsedTime (step Tick ?s))"
    using calories_inv_run [OF calories_inv_init, of "evs @ [Tick]"]
    by (simp add: calories_inv_def c)
  have 1: "calories ?s = Math_round (fmul (fmul 6.0 70) (fdiv (real (elapsedTime ?s)) 3600))"
    using a by (simp only: caloriesAt_def)
  have 2: "elapsedTime (step Tick ?s) = elapsedTime ?s + 1
      \<and> calories ?s \<le> calories (step Tick ?s)" if "status ?s = Active"
    using that a b caloriesAt_mono [of "elapsedTime ?s" "elapsedTime ?s + 1"]
    by (simp add: elapsedTime_tick)
  show ?thesis
    using 1 2 caloriesAt_mono [of t t'] caloriesAt_characterised [of n] unfolding c by blast
qed

theorem C3_calories_witness:
  "status (run [Click StartButton] init) = Active \<and>
   elapsedTime (run ([Click StartButton] @ [Tick]) init) = 1 \<and>
   calories (run [Click StartButton] init) = 0 \<and>
   calories (run ([Click StartButton] @ [Tick]) init) = 0 \<and>
   (1950 :: nat) \<le> 3600 \<and> caloriesAt 1950 = 227 \<and> caloriesAt 3600 = 420 \<and>
   caloriesAt 1950 \<le> caloriesAt 3600 \<and>
   (3600 :: nat) < 2 ^ 48 \<and> (3600 :: nat) mod 60 \<noteq> 30 \<and>
   Math_round (6.0 * 70 * (real 3600 / 3600)) = 420 \<and>
   (1950 :: nat) < 2 ^ 48 \<and> (1950 :: nat) mod 60 = 30 \<and>
   caloriesAt 1950 = Math_round (6.0 * 70 * (real 1950 / 3600)) - 1"
  using C3_calories [where evs = "[Click StartButton]" and t = 1950 and t' = 3600
      and n = 3600]
    C3_calories [where evs = "[Click StartButton]" and t = 1950 and t' = 3600 and n = 1950]
  by (simp add: run_simps caloriesAt_Suc_0 caloriesAt_1950 caloriesAt_3600 Math_round_def)

text \<open>The claim as it was stated fails after 32.5 minutes: the exact value of
  \<open>6.0 \<times> 70 \<times> 1950 / 3600\<close> is 227.5 and rounds to 228, the session shows 227.\<close>

theorem C3_calories_counterexample:
  "elapsedTime (run (Click StartButton # replicate 1950 Tick) init) = 1950 \<and>
   calories (run (Click StartButton # replicate 1950 Tick) init) = 227 \<and>
   Math_round (6.0 * 70 * (1950 / 3600)) = 228"
proof -
  have "calories (run (Click StartButton # replicate 1950 Tick) init) =
      caloriesAt (elapsedTime (run (Click StartButton # replicate 1950 Tick) init))"
    using calories_inv_run [OF calories_inv_init] by (simp add: calories_inv_def)
  then show ?thesis by (simp add: ticks_run caloriesAt_1950 Math_round_def)
qed

subsection \<open>The cumulative distance in binary64\<close>

text \<open>A real within half a unit in the last place of a double rounds to it.\<close>

lemma roundEven_unique: "\<bar>q - of_int N\<bar> < 1 / 2 \<Longrightarrow> roundEven q = N"
proof -
  assume a: "\<bar>q - of_int N\<bar> < 1 / 2"
  show ?thesis
  proof (cases "of_int N \<le> q")
    case True
    with a have f: "\<lfloor>q\<rfloor> = N" by (intro floor_unique) linarith+
    with a True show ?thesis by (simp add: roundEven_def Let_def)
  next
    case False
    with a have f: "\<lfloor>q\<rfloor> = N - 1" by (intro floor_unique) (simp, linarith+)
    with a False show ?thesis by (auto simp: roundEven_def Let_def)
  qed
qed

lemma fl_unique:
  assumes "2 powr of_int k \<le> \<bar>y\<bar>" "\<bar>y\<bar> < 2 powr of_int (k + 1)" "- 1022 \<le> k"
    and "\<bar>y / 2 powr of_int (k - 52) - of_int N\<bar> < 1 / 2"
  shows "fl y = of_int N * 2 powr of_int (k - 52)"
  using fl_eval [OF assms(1-3)] roundEven_unique [OF assms(4)] by simp

text \<open>The sine and the cosine at the arguments of the example lie between bounds that
  their Maclaurin sums and remainders give, close enough to decide the rounding.\<close>

lemma sin_sum:
  "(\<Sum>m<13. sin_coeff m * x ^ m) =
     x - x ^ 3 / 6 + x ^ 5 / 120 - x ^ 7 / 5040 + x ^ 9 / 362880 - x ^ 11 / 39916800"
  for x :: real
  by (simp add: lessThan_nat_numeral lessThan_Suc sin_coeff_def fact_numeral)

lemma cos_sum:
  "(\<Sum>m<14. cos_coeff m * x ^ m) =
     1 - x ^ 2 / 2 + x ^ 4 / 24 - x ^ 6 / 720 + x ^ 8 / 40320 - x ^ 10 / 3628800
       + x ^ 12 / 479001600"
  for x :: real
  by (simp add: lessThan_nat_numeral lessThan_Suc cos_coeff_def fact_numeral)

lemma Maclaurin_cos_bound:
  "\<bar>cos x - (\<Sum>m<n. cos_coeff m * x ^ m)\<bar> \<le> inverse (fact n) * \<bar>x\<bar> ^ n"
proof -
  define S where "S = (\<Sum>m<n. cos_coeff m * x ^ m)"
  obtain t where "cos x = S + (cos (t + 1 / 2 * real n * pi) / fact n) * x ^ n"
    unfolding S_def using Maclaurin_cos_expansion [of x n] by blast
  then have "cos x - S = cos (t + 1 / 2 * real n * pi) * (x ^ n / fact n)" by simp
  then have "\<bar>cos x - S\<bar> = \<bar>cos (t + 1 / 2 * real n * pi)\<bar> * (\<bar>x\<bar> ^ n / fact n)"
    by (simp add: abs_mult power_abs)
  also have "\<dots> \<le> 1 * (\<bar>x\<bar> ^ n / fact n)"
    by (rule mult_right_mono) simp_all
  finally show ?thesis by (simp add: S_def divide_inverse mult.commute)
qed

lemma sin_sum25:
  "(\<Sum>m<25. sin_coeff m * x ^ m) =
     x - x ^ 3 / 6 + x ^ 5 / 120 - x ^ 7 / 5040 + x ^ 9 / 362880 - x ^ 11 / 39916800
       + x ^ 13 / 6227020800 - x ^ 15 / 1307674368000 + x ^ 17 / 355687428096000
       - x ^ 19 / 121645100408832000 + x ^ 21 / 51090942171709440000
       - x ^ 23 / 25852016738884976640000"
  for x :: real
  by (simp add: lessThan_nat_numeral lessThan_Suc sin_coeff_def fact_numeral)

lemma sin_arg:
  "fl (sin (- (5030569068109113 / 36028797018963968)))
     = - (5014239404989977 / 36028797018963968)"
proof -
  define s where "s = sin (- (5030569068109113 / 36028797018963968) :: real)"
  define P where
    "P = (\<Sum>m<13. sin_coeff m * (- (5030569068109113 / 36028797018963968) :: real) ^ m)"
  define r where
    "r = inverse (fact 13) * \<bar>- (5030569068109113 / 36028797018963968) :: real\<bar> ^ 13"
  have b: "\<bar>s - P\<bar> \<le> r"
    unfolding s_def P_def r_def by (rule Maclaurin_sin_bound)
  have 1: "- (5014239404989977 / 36028797018963968) - 1 / 4 / 36028797018963968 \<le> P - r"
    unfolding P_def r_def sin_sum by (simp add: fact_numeral power_divide)
  have 2: "P + r \<le> - (5014239404989977 / 36028797018963968)"
    unfolding P_def r_def sin_sum by (simp add: fact_numeral power_divide)
  have 3: "- (5014239404989977 / 36028797018963968) - 1 / 4 / 36028797018963968 \<le> s"
    "s \<le> - (5014239404989977 / 36028797018963968)"
    using b 1 2 by linarith+
  have "fl s = of_int (- 5014239404989977) * 2 powr of_int (- 3 - 52)"
    using 3 by (intro fl_unique) (simp_all add: powr_neg_numeral)
  then show ?thesis by (simp add: s_def powr_neg_numeral)
qed

lemma cos_arg:
  "fl (cos (5030569068109113 / 36028797018963968)) = 4459770905381437 / 4503599627370496"
proof -
  define s where "s = cos (5030569068109113 / 36028797018963968 :: real)"
  define P where
    "P = (\<Sum>m<14. cos_coeff m * (5030569068109113 / 36028797018963968 :: real) ^ m)"
  define r where
    "r = inverse (fact 14) * \<bar>5030569068109113 / 36028797018963968 :: real\<bar> ^ 14"
  have b: "\<bar>s - P\<bar> \<le> r"
    unfolding s_def P_def r_def by (rule Maclaurin_cos_bound)
  have 1: "8919541810762874 / 9007199254740992 - 7 / 16 / 9007199254740992 \<le> P - r"
    unfolding P_def r_def cos_sum by (simp add: fact_numeral power_divide)
  have 2: "P + r \<le> 8919541810762874 / 9007199254740992"
    unfolding P_def r_def cos_sum by (simp add: fact_numeral power_divide)
  have 3: "8919541810762874 / 9007199254740992 - 7 / 16 / 9007199254740992 \<le> s"
    "s \<le> 8919541810762874 / 9007199254740992"
    using b 1 2 by linarith+
  have "fl s = of_int 8919541810762874 * 2 powr of_int (- 1 - 52)"
    using 3 by (intro fl_unique) (simp_all add: powr_neg_numeral)
  then show ?thesis by (simp add: s_def powr_neg_numeral)
qed

lemma fl_below_1: "fl (18014398509481983 / 18014398509481984) = 1"
  using fl_eval [of "- 1" "18014398509481983 / 18014398509481984"]
  by (simp add: roundEven_def Let_def powr_neg_numeral)

lemma sin_half_pi:
  "fl (sin (884279719003555 / 562949953421312)) = 1"
proof -
  define s where "s = sin (884279719003555 / 562949953421312 :: real)"
  define P where
    "P = (\<Sum>m<25. sin_coeff m * (884279719003555 / 562949953421312 :: real) ^ m)"
  define r where
    "r = inverse (fact 25) * \<bar>884279719003555 / 562949953421312 :: real\<bar> ^ 25"
  have b: "\<bar>s - P\<bar> \<le> r"
    unfolding s_def P_def r_def by (rule Maclaurin_sin_bound)
  have 1: "1 - 1 / 18014398509481984 \<le> P - r"
    unfolding P_def r_def sin_sum25 by (simp add: fact_numeral power_divide)
  have lo: "1 - 1 / 18014398509481984 \<le> s" using b 1 by linarith
  have hi: "s \<le> 1" unfolding s_def by (rule sin_le_one)
  have "fl (1 - 1 / 18014398509481984) \<le> fl s" using lo by (intro fl_mono) simp_all
  moreover have "fl s \<le> fl 1" using lo hi by (intro fl_mono) simp_all
  ultimately have "fl s = 1" by (simp add: fl_below_1 fl_1)
  then show ?thesis by (simp add: s_def)
qed

text \<open>The operations of \<open>haversine(8, 0, -8, 180)\<close>, one by one.\<close>

lemma dLat_sub: "fsub (- 8) 8 = - 16"
  using fl_eval [of 4 "- 16"]
  by (simp add: fsub_def roundEven_def Let_def powr_neg_numeral)

lemma dLat_mul:
  "fmul (- 16) (884279719003555 / 281474976710656)
    = - (884279719003555 / 17592186044416)"
  using fl_eval [of 5 "- (884279719003555 / 17592186044416)"]
  by (simp add: fmul_def roundEven_def Let_def powr_neg_numeral)

lemma dLat_div:
  "fdiv (- (884279719003555 / 17592186044416)) 180
    = - (5030569068109113 / 18014398509481984)"
  using fl_eval [of "- 2" "- (176855943800711 / 633318697598976)"]
  by (simp add: fdiv_def roundEven_def Let_def powr_neg_numeral)

lemma dLat_half:
  "fdiv (- (5030569068109113 / 18014398509481984)) 2
    = - (5030569068109113 / 36028797018963968)"
  using fl_eval [of "- 3" "- (5030569068109113 / 36028797018963968)"]
  by (simp add: fdiv_def roundEven_def Let_def powr_neg_numeral)

lemma dLon_sub: "fsub 180 0 = 180"
  using fl_eval [of 7 180]
  by (simp add: fsub_def roundEven_def Let_def powr_neg_numeral)

lemma dLon_mul:
  "fmul 180 (884279719003555 / 281474976710656)
    = 4974073419394997 / 8796093022208"
  using fl_eval [of 9 "39792587355159975 / 70368744177664"]
  by (simp add: fmul_def roundEven_def Let_def powr_neg_numeral)

lemma dLon_div:
  "fdiv (4974073419394997 / 8796093022208) 180
    = 884279719003555 / 281474976710656"
  using fl_eval [of 1 "4974073419394997 / 1583296743997440"]
  by (simp add: fdiv_def roundEven_def Let_def powr_neg_numeral)

lemma dLon_half:
  "fdiv (884279719003555 / 281474976710656) 2
    = 884279719003555 / 562949953421312"
  using fl_eval [of 0 "884279719003555 / 562949953421312"]
  by (simp add: fdiv_def roundEven_def Let_def powr_neg_numeral)

lemma lat1_mul: "fmul 8 (884279719003555 / 281474976710656) = 884279719003555 / 35184372088832"
  using fl_eval [of 4 "884279719003555 / 35184372088832"]
  by (simp add: fmul_def roundEven_def Let_def powr_neg_numeral)

lemma lat1_div:
  "fdiv (884279719003555 / 35184372088832) 180
    = 5030569068109113 / 36028797018963968"
  using fl_eval [of "- 3" "176855943800711 / 1266637395197952"]
  by (simp add: fdiv_def roundEven_def Let_def powr_neg_numeral)

lemma lat2_mul:
  "fmul (- 8) (884279719003555 / 281474976710656)
    = - (884279719003555 / 35184372088832)"
  using fl_eval [of 4 "- (884279719003555 / 35184372088832)"]
  by (simp add: fmul_def roundEven_def Let_def powr_neg_numeral)

lemma lat2_div:
  "fdiv (- (884279719003555 / 35184372088832)) 180
    = - (5030569068109113 / 36028797018963968)"
  using fl_eval [of "- 3" "- (176855943800711 / 1266637395197952)"]
  by (simp add: fdiv_def roundEven_def Let_def powr_neg_numeral)

lemma sq_sin:
  "fmul (- (5014239404989977 / 36028797018963968)) (- (5014239404989977 / 36028797018963968))
    = 1395694493897217 / 72057594037927936"
  using fl_eval [of "- 6"
      "25142596810554238581887470460529 / 1298074214633706907132624082305024"]
  by (simp add: fmul_def roundEven_def Let_def powr_neg_numeral)

lemma cos_cos:
  "fmul (4459770905381437 / 4503599627370496) (4459770905381437 / 4503599627370496)
    = 8832737443003841 / 9007199254740992"
  using fl_eval [of "- 1"
      "19889556528486762294526464184969 / 20282409603651670423947251286016"]
  by (simp add: fmul_def roundEven_def Let_def powr_neg_numeral)

lemma cos_sin:
  "fmul (8832737443003841 / 9007199254740992) 1
    = 8832737443003841 / 9007199254740992"
  using fl_eval [of "- 1" "8832737443003841 / 9007199254740992"]
  by (simp add: fmul_def roundEven_def Let_def powr_neg_numeral)

lemma a_sum:
  "fadd (1395694493897217 / 72057594037927936) (8832737443003841 / 9007199254740992)
    = 4503599627370497 / 4503599627370496"
  using fl_eval [of 0 "72057594037927945 / 72057594037927936"]
  by (simp add: fadd_def roundEven_def Let_def powr_neg_numeral)

lemma one_minus_a: "fsub 1 (4503599627370497 / 4503599627370496) = - (1 / 4503599627370496)"
  using fl_eval [of "- 52" "- (1 / 4503599627370496)"]
  by (simp add: fsub_def roundEven_def Let_def powr_neg_numeral)

lemma cos_arg_neg:
  "fl (cos (- (5030569068109113 / 36028797018963968))) = 4459770905381437 / 4503599627370496"
  using cos_arg by simp

lemma haversine_a64_antipodal:
  "haversine_a64 8 0 (- 8) 180
    = 4503599627370497 / 4503599627370496"
  unfolding haversine_a64_def Let_def Math_PI_def Math_sin_def Math_cos_def
  by (simp only: dLat_sub dLat_mul dLat_div dLat_half dLon_sub dLon_mul dLon_div dLon_half
      lat1_mul lat1_div lat2_mul lat2_div sin_arg cos_arg cos_arg_neg sin_half_pi
      sq_sin cos_cos cos_sin a_sum)

lemma haversine64_antipodal: "haversine64 8 0 (- 8) 180 = None"
  unfolding haversine64_def Let_def haversine_a64_antipodal one_minus_a
  by (simp add: Math_sqrt_def)

text \<open>Once the distance cell is \<open>NaN\<close> no fix brings it back.\<close>

lemma distance64_NaN: "distance64 None l qs = None"
  by (induction qs arbitrary: l) (case_tac l; simp add: plus64_def)+

text \<open>On reals the two places are half a turn apart.\<close>

lemma haversine_antipodal: "haversine 8 0 (- 8) 180 = 6371 * pi"
proof -
  have e: "sin (2 * pi / 45) * sin (2 * pi / 45) = 1 - cos (2 * pi / 45) * cos (2 * pi / 45)"
    using sin_cos_squared_add3 [of "2 * pi / 45"] by linarith
  have "centralCos 8 0 (- 8) 180 = - 1"
    by (simp add: centralCos_def e)
  then show ?thesis by (simp add: haversine_greatCircle greatCircle_def)
qed

text \<open>
  Claim C1.  The cumulative distance is to be the sum of the great-circle distances of
  consecutive points and never to decrease.  Here a session is started and receives
  the fix (8, 0) and then the fix (-8, 180), its antipode.  In binary64 the term \<open>a\<close> of
  \<open>haversine\<close> is \<open>1 + 2^-52\<close>, so \<open>1 - a\<close> is negative, \<open>Math.sqrt(1 - a)\<close> is \<open>NaN\<close> and so
  is the distance returned; the distance cell is \<open>NaN\<close> after the second fix and stays
  \<open>NaN\<close> with a third.  The great-circle distance of the two places is \<open>6371 \<pi>\<close>, which
  is what the session on reals has: \<open>haversine\<close> does not keep \<open>a\<close> within 0 and 1.
\<close>

theorem C1_distance_nan:
  "haversine_a64 8 0 (- 8) 180 = 1 + 1 / 2 ^ 52 \<and>
   fsub 1 (haversine_a64 8 0 (- 8) 180) < 0 \<and>
   haversine64 8 0 (- 8) 180 = None \<and>
   distance64 (Some 0) None [fixE] = Some 0 \<and>
   distance64 (Some 0) None [fixE, fixF] = None \<and>
   distance64 (Some 0) None [fixE, fixF, fixA] = None \<and>
   haversine 8 0 (- 8) 180 = 6371 * pi \<and>
   distance (run [Click StartButton, Fix fixE, Fix fixF] init) = 6371 * pi"
proof -
  have 1: "distance64 (Some 0) None [fixE] = Some 0" by simp
  have 2: "distance64 (Some 0) None [fixE, fixF] = None"
    by (simp add: fixE_def fixF_def haversine64_antipodal plus64_def)
  have 3: "distance64 (Some 0) None [fixE, fixF, fixA] = None"
    by (simp add: fixE_def fixF_def haversine64_antipodal plus64_def)
  have 4: "distance (run [Click StartButton, Fix fixE, Fix fixF] init) = 6371 * pi"
    by (simp add: run_simps fixE_def fixF_def haversine_antipodal)
  show ?thesis
    using 1 2 3 4
    by (simp add: haversine_a64_antipodal one_minus_a haversine64_antipodal
        haversine_antipodal)
qed

subsection \<open>The average speed\<close>

lemma avgSpeed_inv_step: "avgSpeed_inv s \<Longrightarrow> avgSpeed_inv (step e s)"
  using avgSpeed_handler [of e s]
  by (auto simp: avgSpeed_inv_def step_def avgSpeedEffect_def split: if_splits)

lemma avgSpeed_inv_run: "avgSpeed_inv s \<Longrightarrow> avgSpeed_inv (run evs s)"
  unfolding run_def by (induction evs arbitrary: s) (simp_all add: avgSpeed_inv_step)

text \<open>While the elapsed time is positive, the average speed is the distance divided by
  the elapsed hours, after every event.\<close>

lemma avgSpeed_positive_time:
  "0 < elapsedTime (run evs init) \<Longrightarrow>
     avgSpeed (run evs init) =
       distance (run evs init) / (real (elapsedTime (run evs init)) / 3600)"
  using avgSpeed_inv_run [of init evs] by (simp add: avgSpeed_inv_def init_def)

text \<open>
  Claim C4.  The average speed is to be zero whenever the elapsed time is zero.  Here a
  session covers half a turn of the equator in one second, is stopped and reset: the
  elapsed time is zero again and the average speed is still that of the finished
  session, since the reset does not clear it and the effect does not recompute it at an
  elapsed time of zero.
\<close>

theorem C4_avgSpeed_stale:
  "elapsedTime (run [Click StartButton, Fix fixA, Fix fixB, Tick, Click StopButton,
      Click ResetButton] init) = 0 \<and>
   avgSpeed (run [Click StartButton, Fix fixA, Fix fixB, Tick, Click StopButton,
      Click ResetButton] init) = 22935600 * pi \<and>
   avgSpeed (run [Click StartButton, Fix fixA, Fix fixB, Tick, Click StopButton,
      Click ResetButton] init) \<noteq> 0"
  by (simp add: run_simps fixA_def fixB_def haversine_half_turn)

subsection \<open>The reset\<close>

lemma step_reset: "status s = Summary \<Longrightarrow> step (Click ResetButton) s = reset s"
  by (simp add: step_def avgSpeedEffect_def reset_def)

lemma to_idle_is_reset:
  assumes "status s = Summary" "status (step e s) = Idle"
  shows "e = Click ResetButton"
proof (cases e)
  case (Click c)
  with assms show ?thesis by (cases c) (simp_all add: step_def)
qed (use assms in \<open>simp_all add: step_def avgSpeedEffect_frame\<close>)

text \<open>What the reset handler does: it is the only way from \<open>summary\<close> back to \<open>idle\<close>, it
  clears the point sequence, the distance, the elapsed time, the elevation gain, the
  maximum altitude and the calories, and shows the first screen.  It has no setter for
  the current speed and none for the quality of the signal, which keep their values.\<close>

lemma reset_clears:
  "status s = Summary \<longrightarrow>
     status (step (Click ResetButton) s) = Idle \<and>
     points (step (Click ResetButton) s) = [] \<and>
     distance (step (Click ResetButton) s) = 0 \<and>
     elapsedTime (step (Click ResetButton) s) = 0 \<and>
     elevationGain (step (Click ResetButton) s) = 0 \<and>
     maxAltitude (step (Click ResetButton) s) = 0 \<and>
     calories (step (Click ResetButton) s) = 0 \<and>
     screenIndex (step (Click ResetButton) s) = 0 \<and>
     currentSpeed (step (Click ResetButton) s) = currentSpeed s \<and>
     gpsSignal (step (Click ResetButton) s) = gpsSignal s \<and>
     (status (step e s) = Idle \<longrightarrow> e = Click ResetButton)"
  using to_idle_is_reset [of s e] by (auto simp: step_reset reset_def)

text \<open>
  Claim C5.  The reset is to set every derived metric back to its initial value, the
  current speed and the quality of the signal among them.  Here a session is started,
  receives one good fix with a speed of 1 m/s, is stopped and reset.  The reset brings
  the session back to \<open>idle\<close> with no points and no distance, and the quality of the signal
  is still \<open>good\<close> and the current speed still 3.6 km/h, where the initial values are
  \<open>none\<close> and 0: the handler of the reset button lacks the two setters, as it lacks the one
  of the average speed.
\<close>

theorem C5_reset_stale:
  "status (run [Click StartButton, Fix fixA, Click StopButton] init) = Summary \<and>
   status (run [Click StartButton, Fix fixA, Click StopButton, Click ResetButton] init)
     = Idle \<and>
   points (run [Click StartButton, Fix fixA, Click StopButton, Click ResetButton] init)
     = [] \<and>
   distance (run [Click StartButton, Fix fixA, Click StopButton, Click ResetButton] init)
     = 0 \<and>
   gpsSignal (run [Click StartButton, Fix fixA, Click StopButton, Click ResetButton] init)
     = Good \<and>
   gpsSignal init = NoSignal \<and>
   currentSpeed (run [Click StartButton, Fix fixA, Click StopButton, Click ResetButton] init)
     = 3.6 \<and>
   currentSpeed init = 0"
  by (simp add: run_simps fixA_def)

subsection \<open>The state machine\<close>

lemma step_Click:
  "step (Click c) s = (case transition c (status s) of None \<Rightarrow> s
     | Some st \<Rightarrow> avgSpeedEffect s (onClick c s))"
  by (cases c; cases "status s") (simp_all add: step_def)

lemma status_step_Click:
  "status (step (Click c) s) =
     (case transition c (status s) of None \<Rightarrow> status s | Some st \<Rightarrow> st)"
  by (cases c; cases "status s")
     (simp_all add: step_def avgSpeedEffect_frame handleStart_def reset_def)

text \<open>
  Claim C6, as amended.  The transitions of a session are exactly those of the table:
  \<open>idle\<close> to \<open>active\<close> by start, \<open>active\<close> to \<open>paused\<close> by pause, \<open>active\<close> and \<open>paused\<close> to
  \<open>summary\<close> by stop, \<open>summary\<close> to \<open>idle\<close> by reset.  There is no resume: from \<open>paused\<close>
  only stop is accepted.  From \<open>idle\<close> only start is accepted, from \<open>summary\<close> only reset.
  A control outside the table leaves the whole session as it is, and no event other than
  a control changes the state.
\<close>

theorem C6_transitions:
  "(transition c (status s) = None \<longrightarrow> step (Click c) s = s) \<and>
   (transition c (status s) = Some st \<longrightarrow> status (step (Click c) s) = st) \<and>
   (status s = Idle \<and> c \<noteq> StartButton \<longrightarrow> step (Click c) s = s) \<and>
   (status s = Summary \<and> c \<noteq> ResetButton \<longrightarrow> step (Click c) s = s) \<and>
   (status s = Paused \<and> c \<noteq> StopButton \<longrightarrow> step (Click c) s = s) \<and>
   (e \<notin> range Click \<longrightarrow> status (step e s) = status s)"
proof -
  have "status (step e s) = status s" if "e \<notin> range Click"
    using that by (intro status_step_other) auto
  moreover have "step (Click c) s = s" if "status s = Idle" "c \<noteq> StartButton"
    using that by (cases c) (simp_all add: step_Click)
  moreover have "step (Click c) s = s" if "status s = Summary" "c \<noteq> ResetButton"
    using that by (cases c) (simp_all add: step_Click)
  moreover have "step (Click c) s = s" if "status s = Paused" "c \<noteq> StopButton"
    using that by (cases c) (simp_all add: step_Click)
  moreover have "step (Click c) s = s" if "transition c (status s) = None"
    using that by (simp add: step_Click)
  moreover have "status (step (Click c) s) = st" if "transition c (status s) = Some st"
    using that by (simp add: status_step_Click)
  ultimately show ?thesis by blast
qed

theorem C6_transitions_witness:
  "transition StartButton (status init) = Some Active \<and>
   status (step (Click StartButton) init) = Active \<and>
   transition PauseButton (status init) = None \<and>
   status init = Idle \<and> PauseButton \<noteq> StartButton \<and>
   step (Click PauseButton) init = init \<and>
   status (run [Click StartButton, Click PauseButton] init) = Paused \<and>
   PauseButton \<noteq> StopButton \<and>
   step (Click PauseButton) (run [Click StartButton, Click PauseButton] init)
     = run [Click StartButton, Click PauseButton] init \<and>
   Tick \<notin> range Click \<and>
   status (step Tick init) = status init"
  using C6_transitions [where c = StartButton and s = init and st = Active and e = Tick]
    C6_transitions [where c = PauseButton and s = init and st = Active and e = Tick]
    C6_transitions [where c = PauseButton and st = Active and e = Tick
      and s = "run [Click StartButton, Click PauseButton] init"]
  by (auto simp: run_simps)

text \<open>The claim as it was stated fails for the resume: in the state \<open>paused\<close>, reached by
  start and pause, none of the four controls leads to \<open>active\<close>.\<close>

theorem C6_transitions_counterexample:
  "status (run [Click StartButton, Click PauseButton] init) = Paused \<and>
   status (step (Click StartButton) (run [Click StartButton, Click PauseButton] init))
     = Paused \<and>
   status (step (Click PauseButton) (run [Click StartButton, Click PauseButton] init))
     = Paused \<and>
   status (step (Click StopButton) (run [Click StartButton, Click PauseButton] init))
     = Summary \<and>
   status (step (Click ResetButton) (run [Click StartButton, Click PauseButton] init))
     = Paused"
  by (simp add: run_simps)

subsection \<open>The quality of the signal\<close>

lemma gpsSignal_onPosition: "gpsSignal (onPosition pos s) = classify (accuracy pos)"
  by (cases "fix_speed pos") (simp_all add: onPosition_def addPoint_frame Let_def)

lemma step_FixError: "status s = Active \<Longrightarrow> step FixError s = s\<lparr> gpsSignal := NoSignal \<rparr>"
  by (simp add: step_def onError_def avgSpeedEffect_def)

text \<open>
  Claim C9.  In an active session a fix sets the quality of the signal from its accuracy:
  \<open>good\<close> below 20, \<open>fair\<close> from 20 and below 50, \<open>poor\<close> otherwise.  A failure to acquire a
  fix sets the quality to \<open>none\<close> and changes no other cell of the session; the session
  stays active, so fixes and ticks are still accepted.
\<close>

theorem C9_signal_quality:
  "status s = Active \<longrightarrow>
     (accuracy pos < 20 \<longrightarrow> gpsSignal (step (Fix pos) s) = Good) \<and>
     (20 \<le> accuracy pos \<and> accuracy pos < 50 \<longrightarrow> gpsSignal (step (Fix pos) s) = Fair) \<and>
     (50 \<le> accuracy pos \<longrightarrow> gpsSignal (step (Fix pos) s) = Poor) \<and>
     step FixError s = s\<lparr> gpsSignal := NoSignal \<rparr> \<and>
     enabled (Fix pos') (step FixError s) \<and> enabled Tick (step FixError s)"
  by (simp add: step_FixError)
     (simp add: step_def avgSpeedEffect_frame gpsSignal_onPosition classify_def)

theorem C9_signal_quality_witness:
  "status (run [Click StartButton] init) = Active \<and>
   accuracy fixA < 20 \<and> gpsSignal (step (Fix fixA) (run [Click StartButton] init)) = Good \<and>
   20 \<le> accuracy fixB \<and> accuracy fixB < 50 \<and>
   gpsSignal (step (Fix fixB) (run [Click StartButton] init)) = Fair \<and>
   50 \<le> accuracy fixC \<and> gpsSignal (step (Fix fixC) (run [Click StartButton] init)) = Poor \<and>
   status (run [Click StartButton, Fix fixA] init) = Active \<and>
   step FixError (run [Click StartButton, Fix fixA] init)
     = (run [Click StartButton, Fix fixA] init)\<lparr> gpsSignal := NoSignal \<rparr> \<and>
   gpsSignal (step FixError (run [Click StartButton, Fix fixA] init)) = NoSignal \<and>
   points (step FixError (run [Click StartButton, Fix fixA] init)) = [newPoint fixA]"
  using C9_signal_quality [where s = "run [Click StartButton] init" and pos = fixA and pos' = fixA]
    C9_signal_quality [where s = "run [Click StartButton] init" and pos = fixB and pos' = fixA]
    C9_signal_quality [where s = "run [Click StartButton] init" and pos = fixC and pos' = fixA]
    C9_signal_quality [where s = "run [Click StartButton, Fix fixA] init" and pos = fixA
      and pos' = fixA]
  by (simp add: run_simps fixA_def fixB_def fixC_def)

subsection \<open>The exported document\<close>

lemma emitPoint_append: "emitPoint num tiso gpx p = gpx @ emitPoint num tiso [] p"
  by (simp add: emitPoint_def Let_def)

lemma foldl_emitPoint:
  "foldl (emitPoint num tiso) gpx ps = gpx @ concat (map (emitPoint num tiso []) ps)"
proof (induction ps arbitrary: gpx)
  case Nil
  show ?case by simp
next
  case (Cons p ps)
  show ?case
    by (simp add: Cons.IH [of "emitPoint num tiso gpx p"])
       (simp add: emitPoint_append [of num tiso gpx p])
qed

text \<open>The document is the head, one block of text for each point in order, and the
  tail.\<close>

lemma generateGPX_blocks:
  "generateGPX num tiso ps = gpxHead @ concat (map (emitPoint num tiso []) ps) @ gpxTail"
  by (simp add: generateGPX_def Let_def foldl_emitPoint gpxHead_def gpxTail_def)

lemma emitPoint_last:
  "emitPoint num tiso [] p \<noteq> [] \<and> last (emitPoint num tiso [] p) = CHR ''\<newline>''"
  by (simp add: emitPoint_def Let_def)

subsection \<open>Counting tags\<close>

lemma occurrences_skip:
  "pat \<noteq> [] \<Longrightarrow> hd pat \<notin> set u \<Longrightarrow> occurrences pat (u @ b) = occurrences pat b"
  by (induction u) (auto simp: prefix_def neq_Nil_conv)

text \<open>A pattern cannot start in a text \<open>a\<close> and end after it when the last character of
  \<open>a\<close> is none of the pattern's characters but the last.\<close>

lemma prefix_append_safe:
  assumes "a \<noteq> []" "last a \<notin> set (butlast pat)"
  shows "prefix pat (a @ b) \<longleftrightarrow> prefix pat a"
proof
  assume "prefix pat (a @ b)"
  then have "prefix pat a \<or> (\<exists>us. pat = a @ us \<and> us \<noteq> [])"
    by (cases "prefix pat a") (auto simp: prefix_append)
  then consider "prefix pat a" | us where "pat = a @ us" "us \<noteq> []"
    by blast
  then show "prefix pat a"
  proof cases
    case 1
    then show ?thesis .
  next
    case 2
    then have "butlast pat = a @ butlast us" by (simp add: butlast_append)
    with assms have False by (metis last_in_set Un_iff set_append)
    then show ?thesis ..
  qed
next
  assume "prefix pat a"
  then show "prefix pat (a @ b)" by (rule prefix_prefix)
qed

lemma occurrences_append:
  assumes "pat \<noteq> []" "a \<noteq> []" "last a \<notin> set (butlast pat)"
  shows "occurrences pat (a @ b) = occurrences pat a + occurrences pat b"
  using assms(2,3)
proof (induction a)
  case Nil
  then show ?case by simp
next
  case (Cons c a)
  show ?case
  proof (cases "a = []")
    case True
    have "prefix pat ([c] @ b) \<longleftrightarrow> prefix pat [c]"
      using Cons.prems by (intro prefix_append_safe) (simp_all add: True)
    with True assms(1) show ?thesis by simp
  next
    case False
    with Cons have ih: "occurrences pat (a @ b) = occurrences pat a + occurrences pat b"
      by simp
    have "prefix pat ((c # a) @ b) \<longleftrightarrow> prefix pat (c # a)"
      using Cons.prems by (intro prefix_append_safe) simp_all
    with ih show ?thesis by simp
  qed
qed

lemma occurrences_concat:
  assumes "pat \<noteq> []" "\<And>p. blk p \<noteq> [] \<and> last (blk p) \<notin> set (butlast pat)"
  shows "occurrences pat (concat (map blk ps) @ t) =
           sum_list (map (\<lambda>p. occurrences pat (blk p)) ps) + occurrences pat t"
proof (induction ps)
  case Nil
  show ?case by simp
next
  case (Cons p ps)
  have "occurrences pat (blk p @ (concat (map blk ps) @ t)) =
          occurrences pat (blk p) + occurrences pat (concat (map blk ps) @ t)"
    using assms by (intro occurrences_append) simp_all
  with Cons show ?case by simp
qed

lemma occurrences_generateGPX:
  assumes "pat \<noteq> []" "CHR ''\<newline>'' \<notin> set pat"
  shows "occurrences pat (generateGPX num tiso ps) =
     occurrences pat gpxHead +
     sum_list (map (\<lambda>p. occurrences pat (emitPoint num tiso [] p)) ps) +
     occurrences pat gpxTail"
proof -
  have nl: "CHR ''\<newline>'' \<notin> set (butlast pat)"
    using assms(2) by (meson in_set_butlastD)
  have "occurrences pat (gpxHead @ (concat (map (emitPoint num tiso []) ps) @ gpxTail)) =
      occurrences pat gpxHead +
      occurrences pat (concat (map (emitPoint num tiso []) ps) @ gpxTail)"
    using assms(1) nl by (intro occurrences_append) (simp_all add: gpxHead_def)
  moreover have "occurrences pat (concat (map (emitPoint num tiso []) ps) @ gpxTail) =
      sum_list (map (\<lambda>p. occurrences pat (emitPoint num tiso [] p)) ps) +
      occurrences pat gpxTail"
    using assms(1) nl by (intro occurrences_concat) (simp_all add: emitPoint_last)
  ultimately show ?thesis by (simp add: generateGPX_blocks)
qed

text \<open>The tags of one block, when the texts of numbers and times hold no \<open><\<close>.\<close>

lemma ele_emitPoint:
  assumes "\<forall>x. CHR ''<'' \<notin> set (num x)" "\<forall>t. CHR ''<'' \<notin> set (tiso t)"
  shows "occurrences ''<ele>'' (emitPoint num tiso [] p) = (if truthy (alt p) then 1 else 0)"
  using assms by (simp add: emitPoint_def Let_def occurrences_skip)

lemma trkpt_emitPoint:
  assumes "\<forall>x. CHR ''<'' \<notin> set (num x)" "\<forall>t. CHR ''<'' \<notin> set (tiso t)"
  shows "occurrences ''<trkpt '' (emitPoint num tiso [] p) = 1"
  using assms by (simp add: emitPoint_def Let_def occurrences_skip)

lemma time_emitPoint:
  assumes "\<forall>x. CHR ''<'' \<notin> set (num x)" "\<forall>t. CHR ''<'' \<notin> set (tiso t)"
  shows "occurrences ''<time>'' (emitPoint num tiso [] p) = 1"
  using assms by (simp add: emitPoint_def Let_def occurrences_skip)

lemma sum_list_indicator:
  "sum_list (map (\<lambda>p. if P p then 1 else 0) ps) = length (filter P ps)"
  by (induction ps) simp_all

lemma head_counts:
  "occurrences ''<ele>'' gpxHead = 0" "occurrences ''<trkpt '' gpxHead = 0"
  "occurrences ''<time>'' gpxHead = 0"
  by (simp_all add: gpxHead_def)

lemma tail_counts:
  "occurrences ''<ele>'' gpxTail = 0" "occurrences ''<trkpt '' gpxTail = 0"
  "occurrences ''<time>'' gpxTail = 0"
  by (simp_all add: gpxTail_def)

lemma generateGPX_counts:
  assumes "\<forall>x. CHR ''<'' \<notin> set (num x)" "\<forall>t. CHR ''<'' \<notin> set (tiso t)"
  shows "occurrences ''<ele>'' (generateGPX num tiso ps) =
           length (filter (\<lambda>p. truthy (alt p)) ps)"
    and "occurrences ''<trkpt '' (generateGPX num tiso ps) = length ps"
    and "occurrences ''<time>'' (generateGPX num tiso ps) = length ps"
  using assms
  by (simp_all add: occurrences_generateGPX head_counts tail_counts ele_emitPoint
      trkpt_emitPoint time_emitPoint sum_list_indicator sum_list_triv)

lemma truthy_iff: "truthy x \<longleftrightarrow> x \<noteq> None \<and> x \<noteq> Some 0"
  by (cases x) simp_all

text \<open>
  Claim C7, as amended.  Let the texts of numbers and times hold no \<open><\<close>, and let \<open>p\<close> be a
  point without altitude anywhere in the sequence.  The document holds, between the
  blocks of the points before and after, a \<open>trkpt\<close> element with the latitude and the
  longitude of \<open>p\<close> and a \<open>time\<close> element with its time stamp, and nothing else: the block
  of \<open>p\<close> has one \<open><trkpt\<close>, one \<open><time>\<close> and no \<open><ele>\<close>.  The document has as many
  \<open><trkpt\<close> and \<open><time>\<close> as points.  The \<open><ele>\<close> is not left out for \<open>p\<close> only: the document
  has as many \<open><ele>\<close> as the other points have altitudes that are neither missing nor 0;
  the block of a point with an altitude other than 0 has its \<open><ele>\<close>, the block of a point
  with the altitude 0 has none.
\<close>

theorem C7_missing_altitude:
  assumes "\<forall>x. CHR ''<'' \<notin> set (num x)" and "\<forall>t. CHR ''<'' \<notin> set (tiso t)"
    and "alt p = None"
  shows \<open>generateGPX num tiso (ps @ p # qs) =
      gpxHead @ concat (map (emitPoint num tiso []) ps) @
      (''      <trkpt lat="'' @ num (lat p) @ ''" lon="'' @ num (lng p) @ ''">\<newline>'' @
       ''        <time>'' @ tiso (timestamp p) @ ''</time>\<newline>'' @
       ''      </trkpt>\<newline>'') @
      concat (map (emitPoint num tiso []) qs) @ gpxTail \<and>
    occurrences ''<trkpt '' (emitPoint num tiso [] p) = 1 \<and>
    occurrences ''<time>'' (emitPoint num tiso [] p) = 1 \<and>
    occurrences ''<ele>'' (emitPoint num tiso [] p) = 0 \<and>
    occurrences ''<trkpt '' (generateGPX num tiso (ps @ p # qs)) = length ps + 1 + length qs \<and>
    occurrences ''<time>'' (generateGPX num tiso (ps @ p # qs)) = length ps + 1 + length qs \<and>
    occurrences ''<ele>'' (generateGPX num tiso (ps @ p # qs)) =
      length (filter (\<lambda>q. alt q \<noteq> None \<and> alt q \<noteq> Some 0) (ps @ qs)) \<and>
    (alt q = Some a \<and> a \<noteq> 0 \<longrightarrow>
       emitPoint num tiso [] q =
         ''      <trkpt lat="'' @ num (lat q) @ ''" lon="'' @ num (lng q) @ ''">\<newline>'' @
         ''        <ele>'' @ num a @ ''</ele>\<newline>'' @
         ''        <time>'' @ tiso (timestamp q) @ ''</time>\<newline>'' @
         ''      </trkpt>\<newline>'' \<and>
       occurrences ''<ele>'' (emitPoint num tiso [] q) = 1) \<and>
    (alt r = Some 0 \<longrightarrow>
       emitPoint num tiso [] r =
         ''      <trkpt lat="'' @ num (lat r) @ ''" lon="'' @ num (lng r) @ ''">\<newline>'' @
         ''        <time>'' @ tiso (timestamp r) @ ''</time>\<newline>'' @
         ''      </trkpt>\<newline>'' \<and>
       occurrences ''<ele>'' (emitPoint num tiso [] r) = 0)\<close>
proof -
  have b: \<open>emitPoint num tiso [] p =
       ''      <trkpt lat="'' @ num (lat p) @ ''" lon="'' @ num (lng p) @ ''">\<newline>'' @
       ''        <time>'' @ tiso (timestamp p) @ ''</time>\<newline>'' @
       ''      </trkpt>\<newline>''\<close>
    using assms(3) by (simp add: emitPoint_def Let_def)
  have 1: \<open>generateGPX num tiso (ps @ p # qs) =
      gpxHead @ concat (map (emitPoint num tiso []) ps) @
      (''      <trkpt lat="'' @ num (lat p) @ ''" lon="'' @ num (lng p) @ ''">\<newline>'' @
       ''        <time>'' @ tiso (timestamp p) @ ''</time>\<newline>'' @
       ''      </trkpt>\<newline>'') @
      concat (map (emitPoint num tiso []) qs) @ gpxTail\<close>
    unfolding generateGPX_blocks by (simp add: b)
  have 2: "occurrences ''<ele>'' (emitPoint num tiso [] p) = 0"
    using assms by (simp add: ele_emitPoint)
  have 3: "occurrences ''<ele>'' (generateGPX num tiso (ps @ p # qs)) =
      length (filter (\<lambda>q. alt q \<noteq> None \<and> alt q \<noteq> Some 0) (ps @ qs))"
    using assms by (simp add: generateGPX_counts truthy_iff)
  have 4: "occurrences ''<trkpt '' (generateGPX num tiso (ps @ p # qs)) =
      length ps + 1 + length qs"
    "occurrences ''<time>'' (generateGPX num tiso (ps @ p # qs)) = length ps + 1 + length qs"
    using assms(1,2) by (simp_all add: generateGPX_counts)
  have 5: "occurrences ''<ele>'' (emitPoint num tiso [] q) = 1" if "alt q = Some a" "a \<noteq> 0"
    using assms(1,2) that by (simp add: ele_emitPoint)
  have 6: \<open>emitPoint num tiso [] q =
         ''      <trkpt lat="'' @ num (lat q) @ ''" lon="'' @ num (lng q) @ ''">\<newline>'' @
         ''        <ele>'' @ num a @ ''</ele>\<newline>'' @
         ''        <time>'' @ tiso (timestamp q) @ ''</time>\<newline>'' @
         ''      </trkpt>\<newline>''\<close> if "alt q = Some a" "a \<noteq> 0"
    using that by (simp add: emitPoint_def Let_def)
  have 7: "occurrences ''<ele>'' (emitPoint num tiso [] r) = 0" if "alt r = Some 0"
    using assms(1,2) that by (simp add: ele_emitPoint)
  have 8: \<open>emitPoint num tiso [] r =
         ''      <trkpt lat="'' @ num (lat r) @ ''" lon="'' @ num (lng r) @ ''">\<newline>'' @
         ''        <time>'' @ tiso (timestamp r) @ ''</time>\<newline>'' @
         ''      </trkpt>\<newline>''\<close> if "alt r = Some 0"
    using that by (simp add: emitPoint_def Let_def)
  show ?thesis
    using 1 2 3 4 5 6 7 8
      trkpt_emitPoint [OF assms(1,2), of p] time_emitPoint [OF assms(1,2), of p]
    by blast
qed

theorem C7_missing_altitude_witness:
  \<open>alt ptN = None \<and>
   generateGPX showNum showTime ([ptA] @ ptN # [ptZ]) =
     gpxHead @
     ''      <trkpt lat="0" lon="0">\<newline>'' @
     ''        <ele>10</ele>\<newline>'' @
     ''        <time>1970-01-01T00:00:00.000Z</time>\<newline>'' @
     ''      </trkpt>\<newline>'' @
     ''      <trkpt lat="0" lon="180">\<newline>'' @
     ''        <time>1970-01-01T00:00:01.000Z</time>\<newline>'' @
     ''      </trkpt>\<newline>'' @
     ''      <trkpt lat="0" lon="0">\<newline>'' @
     ''        <time>1970-01-01T00:00:00.000Z</time>\<newline>'' @
     ''      </trkpt>\<newline>'' @
     gpxTail \<and>
   occurrences ''<ele>'' (generateGPX showNum showTime ([ptA] @ ptN # [ptZ])) = 1 \<and>
   occurrences ''<trkpt '' (generateGPX showNum showTime ([ptA] @ ptN # [ptZ])) = 3 \<and>
   alt ptA = Some 10 \<and> occurrences ''<ele>'' (emitPoint showNum showTime [] ptA) = 1 \<and>
   alt ptZ = Some 0 \<and> occurrences ''<ele>'' (emitPoint showNum showTime [] ptZ) = 0\<close>
proof -
  have h1: "\<forall>x. CHR ''<'' \<notin> set (showNum x)" by (simp add: showNum_def)
  have h2: "\<forall>t. CHR ''<'' \<notin> set (showTime t)" by (simp add: showTime_def)
  have h3: "alt ptN = None" by (simp add: ptN_def)
  have b: \<open>emitPoint showNum showTime [] ptA =
     ''      <trkpt lat="0" lon="0">\<newline>'' @
     ''        <ele>10</ele>\<newline>'' @
     ''        <time>1970-01-01T00:00:00.000Z</time>\<newline>'' @
     ''      </trkpt>\<newline>''\<close>
    by (simp add: emitPoint_def ptA_def showNum_def showTime_def)
  have bz: \<open>emitPoint showNum showTime [] ptZ =
     ''      <trkpt lat="0" lon="0">\<newline>'' @
     ''        <time>1970-01-01T00:00:00.000Z</time>\<newline>'' @
     ''      </trkpt>\<newline>''\<close>
    by (simp add: emitPoint_def ptZ_def showNum_def showTime_def)
  have f: "filter (\<lambda>q. alt q \<noteq> None \<and> alt q \<noteq> Some 0) ([ptA] @ [ptZ]) = [ptA]"
    by (simp add: ptA_def ptZ_def)
  have h4: "alt ptA = Some 10" by (simp add: ptA_def)
  have h5: "alt ptZ = Some 0" by (simp add: ptZ_def)
  from C7_missing_altitude [where num = showNum and tiso = showTime and p = ptN
      and ps = "[ptA]" and qs = "[ptZ]" and q = ptA and a = 10 and r = ptZ, OF h1 h2 h3]
  have t: \<open>generateGPX showNum showTime ([ptA] @ ptN # [ptZ]) =
      gpxHead @ concat (map (emitPoint showNum showTime []) [ptA]) @
      (''      <trkpt lat="'' @ showNum (lat ptN) @ ''" lon="'' @ showNum (lng ptN) @
         ''">\<newline>'' @
       ''        <time>'' @ showTime (timestamp ptN) @ ''</time>\<newline>'' @
       ''      </trkpt>\<newline>'') @
      concat (map (emitPoint showNum showTime []) [ptZ]) @ gpxTail\<close>
    and e: "occurrences ''<ele>'' (generateGPX showNum showTime ([ptA] @ ptN # [ptZ])) =
      length (filter (\<lambda>q. alt q \<noteq> None \<and> alt q \<noteq> Some 0) ([ptA] @ [ptZ]))"
    and k: "occurrences ''<trkpt '' (generateGPX showNum showTime ([ptA] @ ptN # [ptZ])) =
      length [ptA] + 1 + length [ptZ]"
    and q: "alt ptA = Some 10 \<and> (10 :: real) \<noteq> 0 \<longrightarrow>
      occurrences ''<ele>'' (emitPoint showNum showTime [] ptA) = 1"
    and z: "alt ptZ = Some 0 \<longrightarrow>
      occurrences ''<ele>'' (emitPoint showNum showTime [] ptZ) = 0"
    by blast+
  have 1: \<open>generateGPX showNum showTime ([ptA] @ ptN # [ptZ]) =
     gpxHead @
     ''      <trkpt lat="0" lon="0">\<newline>'' @
     ''        <ele>10</ele>\<newline>'' @
     ''        <time>1970-01-01T00:00:00.000Z</time>\<newline>'' @
     ''      </trkpt>\<newline>'' @
     ''      <trkpt lat="0" lon="180">\<newline>'' @
     ''        <time>1970-01-01T00:00:01.000Z</time>\<newline>'' @
     ''      </trkpt>\<newline>'' @
     ''      <trkpt lat="0" lon="0">\<newline>'' @
     ''        <time>1970-01-01T00:00:00.000Z</time>\<newline>'' @
     ''      </trkpt>\<newline>'' @
     gpxTail\<close>
    unfolding t by (simp add: b bz) (simp add: ptN_def showNum_def showTime_def)
  have 2: "occurrences ''<ele>'' (generateGPX showNum showTime ([ptA] @ ptN # [ptZ])) = 1"
    unfolding e f by simp
  have 3: "occurrences ''<trkpt '' (generateGPX showNum showTime ([ptA] @ ptN # [ptZ])) = 3"
    unfolding k by simp
  have 4: "occurrences ''<ele>'' (emitPoint showNum showTime [] ptA) = 1"
    using q h4 by simp
  have 5: "occurrences ''<ele>'' (emitPoint showNum showTime [] ptZ) = 0"
    using z h5 by simp
  show ?thesis using h3 h4 h5 1 2 3 4 5 by blast
qed

text \<open>The claim as it was stated fails when another point has the altitude 0: of the
  two points below the first carries an altitude, the second has none, and the
  document has no \<open><ele>\<close> at all, so the element is left out not only for the point
  without altitude.\<close>

theorem C7_missing_altitude_counterexample:
  \<open>alt ptZ = Some 0 \<and> alt ptN = None \<and>
   generateGPX showNum showTime [ptZ, ptN] =
     gpxHead @
     ''      <trkpt lat="0" lon="0">\<newline>'' @
     ''        <time>1970-01-01T00:00:00.000Z</time>\<newline>'' @
     ''      </trkpt>\<newline>'' @
     ''      <trkpt lat="0" lon="180">\<newline>'' @
     ''        <time>1970-01-01T00:00:01.000Z</time>\<newline>'' @
     ''      </trkpt>\<newline>'' @
     gpxTail \<and>
   occurrences ''<ele>'' (emitPoint showNum showTime [] ptZ) = 0 \<and>
   occurrences ''<ele>'' (generateGPX showNum showTime [ptZ, ptN]) = 0\<close>
proof -
  have h1: "\<forall>x. CHR ''<'' \<notin> set (showNum x)" by (simp add: showNum_def)
  have h2: "\<forall>t. CHR ''<'' \<notin> set (showTime t)" by (simp add: showTime_def)
  have 1: "occurrences ''<ele>'' (emitPoint showNum showTime [] ptZ) = 0"
    using h1 h2 by (simp add: ele_emitPoint ptZ_def)
  have 2: "occurrences ''<ele>'' (generateGPX showNum showTime [ptZ, ptN]) = 0"
    using h1 h2 by (simp add: generateGPX_counts ptZ_def ptN_def)
  have 3: \<open>generateGPX showNum showTime [ptZ, ptN] =
     gpxHead @
     ''      <trkpt lat="0" lon="0">\<newline>'' @
     ''        <time>1970-01-01T00:00:00.000Z</time>\<newline>'' @
     ''      </trkpt>\<newline>'' @
     ''      <trkpt lat="0" lon="180">\<newline>'' @
     ''        <time>1970-01-01T00:00:01.000Z</time>\<newline>'' @
     ''      </trkpt>\<newline>'' @
     gpxTail\<close>
    unfolding generateGPX_blocks
    by (simp add: emitPoint_def ptZ_def ptN_def showNum_def showTime_def)
  show ?thesis using 1 2 3 by (simp add: ptZ_def ptN_def)
qed

text \<open>
  Claim C8.  The export of the empty sequence is the text below: the XML declaration
  and a \<open>gpx\<close> element of version 1.1 with one \<open>trk\<close>, in it the name and one \<open>trkseg\<close>
  with nothing inside.  Its tags are well nested, and it has one \<open><trk>\<close>, one
  \<open><trkseg>\<close> and no \<open><trkpt\<close>.
\<close>

theorem C8_export_empty:
  \<open>generateGPX num tiso [] =
     ''<?xml version="1.0" encoding="UTF-8"?>\<newline>'' @
     ''<gpx version="1.1" creator="Web Wear OS Hiking App">\<newline>'' @
     ''  <trk>\<newline>'' @
     ''    <name>Hiking Session</name>\<newline>'' @
     ''    <trkseg>\<newline>'' @
     ''    </trkseg>\<newline>'' @
     ''  </trk>\<newline>'' @
     ''</gpx>'' \<and>
   wellNested (generateGPX num tiso []) \<and>
   tagsFrom None (generateGPX num tiso []) =
     [''?xml version="1.0" encoding="UTF-8"?'',
      ''gpx version="1.1" creator="Web Wear OS Hiking App"'',
      ''trk'', ''name'', ''/name'', ''trkseg'', ''/trkseg'', ''/trk'', ''/gpx''] \<and>
   occurrences ''<trk>'' (generateGPX num tiso []) = 1 \<and>
   occurrences ''<trkseg>'' (generateGPX num tiso []) = 1 \<and>
   occurrences ''<trkpt'' (generateGPX num tiso []) = 0\<close>
  by (simp add: generateGPX_def Let_def wellNested_def)

subsection \<open>An altitude of zero\<close>

lemma truthy_forget0: "truthy (forget0 a) = truthy a"
  by (cases a) (simp_all add: forget0_def)

lemma the_forget0: "truthy a \<Longrightarrow> the (forget0 a) = the a"
  by (cases a) (simp_all add: forget0_def)

lemma emitPoint_forget: "emitPoint num tiso gpx (forgetPoint p) = emitPoint num tiso gpx p"
  by (cases "truthy (alt p)")
     (simp_all add: emitPoint_def forgetPoint_def truthy_forget0 the_forget0)

lemma generateGPX_forget: "generateGPX num tiso (map forgetPoint ps) = generateGPX num tiso ps"
  by (simp add: generateGPX_blocks emitPoint_forget comp_def)

lemma emitPoint_zero:
  "emitPoint num tiso gpx (p\<lparr> alt := Some 0 \<rparr>) = emitPoint num tiso gpx (p\<lparr> alt := None \<rparr>)"
  by (simp add: emitPoint_def)

lemma maxAltitude_onPosition:
  "maxAltitude (onPosition pos s) =
     (if truthy (altitude pos) \<and> the (altitude pos) > maxAltitude s then the (altitude pos)
      else maxAltitude s)"
  by (cases "fix_speed pos") (simp_all add: onPosition_def addPoint_def newPoint_def Let_def)

lemma addPoint_forget:
  "forgetSession (addPoint np s) = addPoint (forgetPoint np) (forgetSession s)"
proof (cases "points s = []")
  case True
  then show ?thesis
    by (simp add: addPoint_def forgetSession_def forgetPoint_def Let_def truthy_forget0
        the_forget0 cong: conj_cong if_cong)
next
  case False
  then have l: "last (map forgetPoint (points s)) = forgetPoint (last (points s))"
    by (simp add: last_map)
  show ?thesis using False
    by (simp add: addPoint_def forgetSession_def Let_def l forgetPoint_def truthy_forget0
        the_forget0 cong: conj_cong if_cong)
qed

lemma onPosition_forget:
  "forgetSession (onPosition pos s) =
     onPosition (pos\<lparr> altitude := forget0 (altitude pos) \<rparr>) (forgetSession s)"
proof -
  have np: "newPoint (pos\<lparr> altitude := forget0 (altitude pos) \<rparr>) = forgetPoint (newPoint pos)"
    by (simp add: newPoint_def forgetPoint_def)
  have g: "forgetSession (s\<lparr> gpsSignal := x \<rparr>) = (forgetSession s)\<lparr> gpsSignal := x \<rparr>"
    for x s by (simp add: forgetSession_def)
  have c: "forgetSession (s\<lparr> currentSpeed := x \<rparr>) = (forgetSession s)\<lparr> currentSpeed := x \<rparr>"
    for x s by (simp add: forgetSession_def)
  show ?thesis
    by (cases "fix_speed pos") (simp_all add: onPosition_def Let_def np addPoint_forget g c)
qed

lemma handler_forget: "forgetSession (handler e s) = handler (forgetEvent e) (forgetSession s)"
proof (cases e)
  case (Fix pos)
  then show ?thesis by (simp add: onPosition_forget)
next
  case (Click c)
  then show ?thesis by (cases c) (simp_all add: forgetSession_def handleStart_def reset_def)
qed (simp_all add: forgetSession_def onError_def tick_def Let_def onDragEnd_def)

lemma enabled_forget: "enabled (forgetEvent e) (forgetSession s) = enabled e s"
  by (cases e) (simp_all add: forgetSession_def)

lemma avgSpeedEffect_forget:
  "forgetSession (avgSpeedEffect old s) = avgSpeedEffect (forgetSession old) (forgetSession s)"
  by (simp add: avgSpeedEffect_def forgetSession_def)

lemma step_forget: "forgetSession (step e s) = step (forgetEvent e) (forgetSession s)"
  by (simp add: step_def enabled_forget avgSpeedEffect_forget handler_forget)

lemma run_forget: "forgetSession (run evs s) = run (map forgetEvent evs) (forgetSession s)"
  unfolding run_def by (induction evs arbitrary: s) (simp_all add: step_forget)

lemma forgetSession_init: "forgetSession init = init"
  by (simp add: forgetSession_def init_def)

text \<open>
  Claim C10.  An altitude of exactly 0 is treated as an absent one.  For a point with the
  altitude 0 the exporter appends the \<open>trkpt\<close> line, the \<open>time\<close> line and the closing line and
  nothing else, the same text as for the point without altitude; when the texts of
  numbers and times hold no \<open><\<close>, this block has no \<open><ele>\<close>.  A fix with the altitude 0
  changes neither the elevation gain nor the maximum altitude, and the fix after a point
  with the altitude 0 does not change the elevation gain.  In general, replacing every
  altitude 0 of the fixes by an unknown altitude commutes with every step: the two runs
  end in sessions that differ only in the altitudes stored with the points, and their
  exports are the same text.
\<close>

theorem C10_zero_altitude:
  \<open>(alt p0 = Some 0 \<longrightarrow>
      emitPoint num tiso gpx p0 =
        gpx @ ''      <trkpt lat="'' @ num (lat p0) @ ''" lon="'' @ num (lng p0) @ ''">\<newline>'' @
        ''        <time>'' @ tiso (timestamp p0) @ ''</time>\<newline>'' @
        ''      </trkpt>\<newline>'') \<and>
   ((\<forall>x. CHR ''<'' \<notin> set (num x)) \<and> (\<forall>t. CHR ''<'' \<notin> set (tiso t)) \<and> alt p0 = Some 0 \<longrightarrow>
      occurrences ''<ele>'' (emitPoint num tiso [] p0) = 0 \<and>
      occurrences ''<ele>'' (generateGPX num tiso [p0]) = 0) \<and>
   emitPoint num tiso gpx (p\<lparr> alt := Some 0 \<rparr>) = emitPoint num tiso gpx (p\<lparr> alt := None \<rparr>) \<and>
   (altitude pos = Some 0 \<longrightarrow>
      elevationGain (onPosition pos s) = elevationGain s \<and>
      maxAltitude (onPosition pos s) = maxAltitude s) \<and>
   (points s \<noteq> [] \<and> alt (last (points s)) = Some 0 \<longrightarrow>
      elevationGain (onPosition pos s) = elevationGain s) \<and>
   forgetSession (step e s) = step (forgetEvent e) (forgetSession s) \<and>
   run (map forgetEvent evs) init =
     (run evs init)\<lparr> points := map forgetPoint (points (run evs init)) \<rparr> \<and>
   generateGPX num tiso (points (run (map forgetEvent evs) init)) =
     generateGPX num tiso (points (run evs init))\<close>
proof -
  have r: "run (map forgetEvent evs) init = forgetSession (run evs init)"
    by (simp add: run_forget forgetSession_init)
  have 1: \<open>emitPoint num tiso gpx p0 =
        gpx @ ''      <trkpt lat="'' @ num (lat p0) @ ''" lon="'' @ num (lng p0) @ ''">\<newline>'' @
        ''        <time>'' @ tiso (timestamp p0) @ ''</time>\<newline>'' @
        ''      </trkpt>\<newline>''\<close> if "alt p0 = Some 0"
    using that by (simp add: emitPoint_def Let_def)
  have 2: "occurrences ''<ele>'' (emitPoint num tiso [] p0) = 0 \<and>
      occurrences ''<ele>'' (generateGPX num tiso [p0]) = 0"
    if "\<forall>x. CHR ''<'' \<notin> set (num x)" "\<forall>t. CHR ''<'' \<notin> set (tiso t)" "alt p0 = Some 0"
    using that by (simp add: ele_emitPoint generateGPX_counts)
  have 3: "generateGPX num tiso (points (run (map forgetEvent evs) init)) =
     generateGPX num tiso (points (run evs init))"
    unfolding r by (simp add: forgetSession_def generateGPX_forget)
  have 4: "run (map forgetEvent evs) init =
     (run evs init)\<lparr> points := map forgetPoint (points (run evs init)) \<rparr>"
    unfolding r by (simp add: forgetSession_def)
  have 5: "emitPoint num tiso gpx (p\<lparr> alt := Some 0 \<rparr>) =
      emitPoint num tiso gpx (p\<lparr> alt := None \<rparr>)"
    by (rule emitPoint_zero)
  have 6: "elevationGain (onPosition pos s) = elevationGain s \<and>
      maxAltitude (onPosition pos s) = maxAltitude s" if "altitude pos = Some 0"
    using that by (simp add: elevationGain_onPosition maxAltitude_onPosition)
  have 7: "elevationGain (onPosition pos s) = elevationGain s"
    if "points s \<noteq> [] \<and> alt (last (points s)) = Some 0"
    using that by (simp add: elevationGain_onPosition)
  have 8: "forgetSession (step e s) = step (forgetEvent e) (forgetSession s)"
    by (rule step_forget)
  show ?thesis using 1 2 3 4 5 6 7 8 by blast
qed

theorem C10_zero_altitude_witness:
  \<open>alt ptZ = Some 0 \<and>
   emitPoint showNum showTime [] ptZ =
     ''      <trkpt lat="0" lon="0">\<newline>'' @
     ''        <time>1970-01-01T00:00:00.000Z</time>\<newline>'' @
     ''      </trkpt>\<newline>'' \<and>
   occurrences ''<ele>'' (emitPoint showNum showTime [] ptZ) = 0 \<and>
   occurrences ''<ele>'' (generateGPX showNum showTime [ptZ]) = 0 \<and>
   altitude fixA = Some 0 \<and>
   maxAltitude (run [Click StartButton, Fix fixC] init) = 100 \<and>
   elevationGain (onPosition fixA (run [Click StartButton, Fix fixC] init))
     = elevationGain (run [Click StartButton, Fix fixC] init) \<and>
   maxAltitude (onPosition fixA (run [Click StartButton, Fix fixC] init)) = 100 \<and>
   points (run [Click StartButton, Fix fixA] init) \<noteq> [] \<and>
   alt (last (points (run [Click StartButton, Fix fixA] init))) = Some 0 \<and>
   altitude fixB = Some 10 \<and>
   elevationGain (onPosition fixB (run [Click StartButton, Fix fixA] init))
     = elevationGain (run [Click StartButton, Fix fixA] init) \<and>
   forgetEvent (Fix fixA) = Fix (fixA\<lparr> altitude := None \<rparr>) \<and>
   elevationGain (run (map forgetEvent [Click StartButton, Fix fixA, Fix fixB]) init)
     = elevationGain (run [Click StartButton, Fix fixA, Fix fixB] init)\<close>
proof -
  have h1: "\<forall>x. CHR ''<'' \<notin> set (showNum x)" by (simp add: showNum_def)
  have h2: "\<forall>t. CHR ''<'' \<notin> set (showTime t)" by (simp add: showTime_def)
  have h3: "alt ptZ = Some 0" by (simp add: ptZ_def)
  have n: "showNum (lat ptZ) = ''0''" "showNum (lng ptZ) = ''0''"
    "showTime (timestamp ptZ) = ''1970-01-01T00:00:00.000Z''"
    by (simp_all add: ptZ_def showNum_def showTime_def)
  from C10_zero_altitude [where p0 = ptZ and num = showNum and tiso = showTime
      and gpx = "[]"] h1 h2 h3
  have a: \<open>emitPoint showNum showTime [] ptZ =
        [] @ ''      <trkpt lat="'' @ showNum (lat ptZ) @ ''" lon="'' @ showNum (lng ptZ) @
          ''">\<newline>'' @
        ''        <time>'' @ showTime (timestamp ptZ) @ ''</time>\<newline>'' @
        ''      </trkpt>\<newline>''\<close>
    and b: "occurrences ''<ele>'' (emitPoint showNum showTime [] ptZ) = 0"
    and c: "occurrences ''<ele>'' (generateGPX showNum showTime [ptZ]) = 0"
    by blast+
  have 1: \<open>emitPoint showNum showTime [] ptZ =
     ''      <trkpt lat="0" lon="0">\<newline>'' @
     ''        <time>1970-01-01T00:00:00.000Z</time>\<newline>'' @
     ''      </trkpt>\<newline>''\<close>
    unfolding a n by simp
  have 2: "altitude fixA = Some 0 \<and>
   maxAltitude (run [Click StartButton, Fix fixC] init) = 100 \<and>
   elevationGain (onPosition fixA (run [Click StartButton, Fix fixC] init))
     = elevationGain (run [Click StartButton, Fix fixC] init) \<and>
   maxAltitude (onPosition fixA (run [Click StartButton, Fix fixC] init)) = 100 \<and>
   points (run [Click StartButton, Fix fixA] init) \<noteq> [] \<and>
   alt (last (points (run [Click StartButton, Fix fixA] init))) = Some 0 \<and>
   altitude fixB = Some 10 \<and>
   elevationGain (onPosition fixB (run [Click StartButton, Fix fixA] init))
     = elevationGain (run [Click StartButton, Fix fixA] init) \<and>
   forgetEvent (Fix fixA) = Fix (fixA\<lparr> altitude := None \<rparr>) \<and>
   elevationGain (run (map forgetEvent [Click StartButton, Fix fixA, Fix fixB]) init)
     = elevationGain (run [Click StartButton, Fix fixA, Fix fixB] init)"
    using C10_zero_altitude [where pos = fixA
        and s = "run [Click StartButton, Fix fixC] init"
        and num = showNum and tiso = showTime and gpx = "[]" and p = ptA and p0 = ptZ
        and e = Tick and evs = "[Click StartButton, Fix fixA, Fix fixB]"]
      C10_zero_altitude [where pos = fixB and s = "run [Click StartButton, Fix fixA] init"
        and num = showNum and tiso = showTime and gpx = "[]" and p = ptA and p0 = ptZ
        and e = Tick and evs = "[Click StartButton, Fix fixA, Fix fixB]"]
    by (simp add: run_simps forget0_def fixA_def fixB_def fixC_def)
  show ?thesis using h3 1 b c 2 by blast
qed

end
